theory Spec2Isabelle
  imports Complex_Main "HOL-Library.Char_ord" "HOL-Library.List_Lexorder" "HOL-Library.Multiset"
begin

section \<open>Data model (src/types/index.ts)\<close>

text \<open>
  Coordinates, prices and balances are real numbers. A distance is a \<open>number\<close> that may
  be NaN, because the distance function of the code yields NaN for some valid
  coordinates (see below). Counters of loop iterations are integers.
  \<open>serverTimestamp()\<close> and \<open>new Date()\<close> read a clock; the clock value is passed to
  every operation as the parameter \<open>now\<close>.
\<close>

type_synonym timestamp = nat

text \<open>A JavaScript number that is either a real value or NaN.\<close>

datatype number = Num real | NaN

text \<open>The operators \<open><\<close> and \<open><=\<close> on numbers: false as soon as one side is NaN.\<close>

fun jsLess :: "number \<Rightarrow> number \<Rightarrow> bool" where
  "jsLess (Num x) (Num y) = (x < y)"
| "jsLess x y = False"

fun jsLessEq :: "number \<Rightarrow> number \<Rightarrow> bool" where
  "jsLessEq (Num x) (Num y) = (x \<le> y)"
| "jsLessEq x y = False"

datatype UserRole = role_customer | role_collector

datatype WasteType =
  household | kitchen | chemical | electronic | construction | garden | medical | recyclable

datatype WasteSize = small | medium | large | extra_large

record GeoLocation =
  lat :: real
  lng :: real
  address :: "string option"
  formattedAddress :: "string option"

text \<open>Firestore's \<open>GeoPoint\<close>.\<close>

record GeoPoint =
  latitude :: real
  longitude :: real

text \<open>\<open>RequestStatus\<close> of a Firestore pickup request.\<close>

datatype RequestStatus = pending | assigned | in_progress | arrived | completed | cancelled

record Collector =
  c_id :: string
  c_email :: string
  c_name :: string
  c_phone :: string
  c_role :: UserRole
  c_wasteTypesHandled :: "WasteType list"
  c_isAvailable :: bool
  c_currentLocation :: "GeoLocation option"
  c_rating :: real
  c_totalPickups :: real
  c_earnings :: real
  c_createdAt :: timestamp
  c_updatedAt :: timestamp

record PickupRequest =
  p_id :: string
  p_customerId :: string
  p_collectorId :: "string option"
  p_wasteType :: WasteType
  p_wasteSize :: WasteSize
  p_pickupLocation :: GeoLocation
  p_estimatedPrice :: real
  p_finalPrice :: "real option"
  p_distance :: "number option"
  p_status :: RequestStatus
  p_createdAt :: timestamp
  p_assignedAt :: "timestamp option"
  p_completedAt :: "timestamp option"

section \<open>The Firestore store (documents of src/lib/firestore.ts)\<close>

text \<open>A document of the \<open>users\<close> collection.\<close>

record user_doc =
  u_email :: string
  u_name :: string
  u_phone :: string
  u_role :: UserRole
  u_wasteTypesHandled :: "WasteType list"
  u_isAvailable :: bool
  u_currentLocation :: "GeoPoint option"
  u_currentRequestId :: "string option"
  u_rating :: real
  u_totalPickups :: real
  u_earnings :: real
  u_createdAt :: "timestamp option"
  u_updatedAt :: "timestamp option"

text \<open>A document of the \<open>requests\<close> collection, as \<open>createPickupRequest\<close> writes it and
  the update functions extend it.\<close>

record request_doc =
  r_customerId :: string
  r_collectorId :: "string option"
  r_wasteType :: WasteType
  r_wasteSize :: WasteSize
  r_pickupLocation :: GeoPoint
  r_pickupAddress :: string
  r_estimatedPrice :: real
  r_finalPrice :: "real option"
  r_distance :: "number option"
  r_status :: RequestStatus
  r_createdAt :: "timestamp option"
  r_assignedAt :: "timestamp option"
  r_completedAt :: "timestamp option"
  r_updatedAt :: "timestamp option"
  r_cancelReason :: "string option"

text \<open>\<open>PaymentStatus\<close> and a document of the \<open>payments\<close> collection (\<open>createPayment\<close>).\<close>

datatype PaymentStatus = pay_pending | pay_processing | pay_completed | pay_failed | pay_refunded

datatype PaymentMethod = modernpay | wave | card

record payment_doc =
  pm_requestId :: string
  pm_customerId :: string
  pm_collectorId :: string
  pm_amount :: real
  pm_currency :: string
  pm_status :: PaymentStatus
  pm_method :: PaymentMethod
  pm_transactionId :: "string option"
  pm_createdAt :: timestamp
  pm_updatedAt :: "timestamp option"
  pm_completedAt :: "timestamp option"

text \<open>A document of the \<open>wallets\<close> collection; a stored document may lack a balance.\<close>

record wallet_doc =
  w_balance :: "real option"
  w_currency :: string
  w_createdAt :: "timestamp option"
  w_updatedAt :: "timestamp option"

datatype tx_type = credit | withdraw

record wallet_tx =
  t_walletId :: string
  t_type :: tx_type
  t_amount :: real
  t_description :: string
  t_transactionId :: "string option"
  t_paymentMethod :: "string option"
  t_phoneNumber :: "string option"
  t_status :: "string option"
  t_balanceAfter :: real
  t_createdAt :: timestamp

text \<open>
  The collections. A query over \<open>users\<close> returns documents in the store's traversal
  order, so that collection is a list of (document id, document) pairs; the collections
  that only receive new documents are lists too (newest last); the others are maps from
  document id to document.
\<close>

record firestore =
  requests :: "string \<rightharpoonup> request_doc"
  users :: "(string \<times> user_doc) list"
  payments :: "(string \<times> payment_doc) list"
  wallets :: "string \<rightharpoonup> wallet_doc"
  walletTransactions :: "(string \<times> wallet_tx) list"

text \<open>
  \<open>updateDoc\<close> rejects with a not-found error when the document does not exist;
  \<open>setDoc\<close> rejects with an invalid-argument error when a field of the data is
  \<open>undefined\<close>.
\<close>

datatype error = NotFound | InvalidArgument

section \<open>Distance (src/lib/maps.ts)\<close>

text \<open>
  \<open>calculateDistance(lat1, lng1, lat2, lng2)\<close> evaluates the haversine formula in IEEE
  double arithmetic with the platform's \<open>Math.sin\<close>, \<open>Math.cos\<close>, \<open>Math.sqrt\<close> and
  \<open>Math.atan2\<close>:
  \<^verbatim>\<open>a = sin(dLat/2) * sin(dLat/2) + cos(toRad(lat1)) * cos(toRad(lat2)) * sin(dLng/2) * sin(dLng/2)\<close>,
  \<^verbatim>\<open>c = 2 * atan2(sqrt(a), sqrt(1 - a))\<close>, result \<open>6371 * c\<close>.
  The rounding of each operation decides its value: for the valid, nearly antipodal
  coordinates \<open>(-82, -179)\<close> and \<open>(82, 1)\<close> the sum \<open>a\<close> rounds to
  \<open>1.0000000000000002\<close>, \<open>Math.sqrt(1 - a)\<close> is NaN and so is the result, in both
  directions; from a point to itself \<open>a\<close> is \<open>0\<close> and the result is \<open>0\<close>. Neither the
  rounding nor the library functions are expressible here. The function is therefore a
  parameter, named \<open>calculateDistance\<close>, of every function that calls it, and what is
  proved of those functions holds for every distance function, the one of the code
  included.
\<close>

type_synonym distance_fn = "real \<Rightarrow> real \<Rightarrow> real \<Rightarrow> real \<Rightarrow> number"

section \<open>Collectors and matching (src/lib/firestore.ts)\<close>

text \<open>The mapping of a query result document to a \<open>Collector\<close> object.\<close>

definition toCollector :: "timestamp \<Rightarrow> string \<times> user_doc \<Rightarrow> Collector" where
  "toCollector now d =
     \<lparr> c_id = fst d,
       c_email = u_email (snd d),
       c_name = u_name (snd d),
       c_phone = u_phone (snd d),
       c_role = role_collector,
       c_wasteTypesHandled = u_wasteTypesHandled (snd d),
       c_isAvailable = u_isAvailable (snd d),
       c_currentLocation =
         (case u_currentLocation (snd d) of
            None \<Rightarrow> None
          | Some g \<Rightarrow> Some \<lparr> lat = latitude g, lng = longitude g,
                            address = None, formattedAddress = None \<rparr>),
       c_rating = u_rating (snd d),
       c_totalPickups = u_totalPickups (snd d),
       c_earnings = u_earnings (snd d),
       c_createdAt = (case u_createdAt (snd d) of None \<Rightarrow> now | Some t \<Rightarrow> t),
       c_updatedAt = (case u_updatedAt (snd d) of None \<Rightarrow> now | Some t \<Rightarrow> t) \<rparr>"

text \<open>The three \<open>where\<close> clauses of the query of \<open>getAvailableCollectors\<close>.\<close>

definition availableQuery :: "WasteType \<Rightarrow> string \<times> user_doc \<Rightarrow> bool" where
  "availableQuery wasteType d =
     (u_role (snd d) = role_collector \<and> u_isAvailable (snd d) = True \<and>
      wasteType \<in> set (u_wasteTypesHandled (snd d)))"

text \<open>
  The query has no \<open>orderBy\<close>; Firestore then returns the matching documents in
  ascending order of document id, whatever the order in which the store holds them.
\<close>

definition getAvailableCollectors :: "timestamp \<Rightarrow> WasteType \<Rightarrow> firestore \<Rightarrow> Collector list" where
  "getAvailableCollectors now wasteType fs =
     map (toCollector now) (filter (availableQuery wasteType) (sort_key fst (users fs)))"

text \<open>The \<open>for\<close> loop of \<open>findNearestCollector\<close>, with the variable \<open>nearest\<close> as accumulator.\<close>

fun nearestLoop ::
  "distance_fn \<Rightarrow> GeoLocation \<Rightarrow> Collector list \<Rightarrow> (Collector \<times> number) option \<Rightarrow>
   (Collector \<times> number) option"
where
  "nearestLoop calculateDistance customerLocation [] nearest = nearest"
| "nearestLoop calculateDistance customerLocation (c # cs) nearest =
     (case c_currentLocation c of
        None \<Rightarrow> nearestLoop calculateDistance customerLocation cs nearest
      | Some l \<Rightarrow>
          (let distance = calculateDistance (lat customerLocation) (lng customerLocation)
                            (lat l) (lng l)
           in case nearest of
                None \<Rightarrow> nearestLoop calculateDistance customerLocation cs (Some (c, distance))
              | Some n \<Rightarrow>
                  if jsLess distance (snd n)
                  then nearestLoop calculateDistance customerLocation cs (Some (c, distance))
                  else nearestLoop calculateDistance customerLocation cs nearest))"

definition findNearestCollector ::
  "distance_fn \<Rightarrow> timestamp \<Rightarrow> GeoLocation \<Rightarrow> WasteType \<Rightarrow> firestore \<Rightarrow>
   (Collector \<times> number) option"
where
  "findNearestCollector calculateDistance now customerLocation wasteType fs =
     (let collectors = getAvailableCollectors now wasteType fs
      in if length collectors = 0 then None
         else nearestLoop calculateDistance customerLocation collectors None)"

section \<open>Pickup requests (src/lib/firestore.ts)\<close>

definition getPickupRequest :: "timestamp \<Rightarrow> string \<Rightarrow> firestore \<Rightarrow> PickupRequest option" where
  "getPickupRequest now requestId fs =
     (case requests fs requestId of
        None \<Rightarrow> None
      | Some data \<Rightarrow>
          Some \<lparr> p_id = requestId,
                 p_customerId = r_customerId data,
                 p_collectorId = r_collectorId data,
                 p_wasteType = r_wasteType data,
                 p_wasteSize = r_wasteSize data,
                 p_pickupLocation =
                   \<lparr> lat = latitude (r_pickupLocation data),
                     lng = longitude (r_pickupLocation data),
                     address = None,
                     formattedAddress = Some (r_pickupAddress data) \<rparr>,
                 p_estimatedPrice = r_estimatedPrice data,
                 p_finalPrice = r_finalPrice data,
                 p_distance = r_distance data,
                 p_status = r_status data,
                 p_createdAt = (case r_createdAt data of None \<Rightarrow> now | Some t \<Rightarrow> t),
                 p_assignedAt = r_assignedAt data,
                 p_completedAt = r_completedAt data \<rparr>)"

text \<open>
  \<open>updateDoc(doc(db, 'requests', requestId), data)\<close>: the assignment \<open>upd\<close> of the fields
  of \<open>data\<close> to the stored document; the promise rejects when there is no document.
\<close>

definition updateRequestDoc ::
  "string \<Rightarrow> (request_doc \<Rightarrow> request_doc) \<Rightarrow> firestore \<Rightarrow> error option \<times> firestore"
where
  "updateRequestDoc requestId upd fs =
     (case requests fs requestId of
        None \<Rightarrow> (Some NotFound, fs)
      | Some d \<Rightarrow> (None, fs\<lparr>requests := (requests fs)(requestId \<mapsto> upd d)\<rparr>))"

text \<open>\<open>updateDoc(doc(db, 'users', userId), data)\<close>.\<close>

definition updateUserDoc ::
  "string \<Rightarrow> (user_doc \<Rightarrow> user_doc) \<Rightarrow> firestore \<Rightarrow> error option \<times> firestore"
where
  "updateUserDoc userId upd fs =
     (if userId \<in> set (map fst (users fs))
      then (None, fs\<lparr>users := map (\<lambda>d. if fst d = userId then (fst d, upd (snd d)) else d)
                                  (users fs)\<rparr>)
      else (Some NotFound, fs))"

text \<open>
  \<open>updateRequestStatus\<close>. The object \<open>additionalData\<close> is given as the assignment of its
  fields; it is spread after \<open>status\<close> and \<open>updatedAt\<close> and before the two timestamps.
\<close>

definition updateRequestStatus ::
  "timestamp \<Rightarrow> string \<Rightarrow> RequestStatus \<Rightarrow> (request_doc \<Rightarrow> request_doc) \<Rightarrow> firestore \<Rightarrow>
   error option \<times> firestore"
where
  "updateRequestStatus now requestId status additionalData fs =
     updateRequestDoc requestId
       (\<lambda>d. let d1 = additionalData (d\<lparr>r_status := status, r_updatedAt := Some now\<rparr>)
            in if status = assigned then d1\<lparr>r_assignedAt := Some now\<rparr>
               else if status = completed then d1\<lparr>r_completedAt := Some now\<rparr>
               else d1)
       fs"

definition assignCollectorToRequest ::
  "timestamp \<Rightarrow> string \<Rightarrow> string \<Rightarrow> number \<Rightarrow> firestore \<Rightarrow> error option \<times> firestore"
where
  "assignCollectorToRequest now requestId collectorId distance fs =
     (case updateRequestDoc requestId
             (\<lambda>d. d\<lparr>r_collectorId := Some collectorId,
                     r_distance := Some distance,
                     r_status := assigned,
                     r_assignedAt := Some now,
                     r_updatedAt := Some now\<rparr>) fs of
        (Some e, fs1) \<Rightarrow> (Some e, fs1)
      | (None, fs1) \<Rightarrow>
          updateUserDoc collectorId
            (\<lambda>u. u\<lparr>u_isAvailable := False,
                    u_currentRequestId := Some requestId,
                    u_updatedAt := Some now\<rparr>) fs1)"

section \<open>Wallets (src/lib/firestore.ts)\<close>

record withdraw_result =
  wr_success :: bool
  wr_error :: "string option"
  wr_transactionId :: "string option"

text \<open>\<open>walletDoc.data().balance || 0\<close>.\<close>

definition balanceOrZero :: "wallet_doc \<Rightarrow> real" where
  "balanceOrZero w = (case w_balance w of None \<Rightarrow> 0 | Some b \<Rightarrow> b)"

text \<open>
  \<open>creditWallet\<close>; \<open>transId\<close> is the id Firestore generates for the new transaction.
  The transaction data always names the field \<open>transactionId\<close>, so when the optional
  argument is omitted the second \<open>setDoc\<close> rejects, after the balance has been written.
\<close>

definition creditWallet ::
  "timestamp \<Rightarrow> string \<Rightarrow> string \<Rightarrow> real \<Rightarrow> string \<Rightarrow> string option \<Rightarrow> firestore \<Rightarrow>
   error option \<times> firestore"
where
  "creditWallet now transId collectorId amount description transactionId fs =
     (let currentBalance = (case wallets fs collectorId of None \<Rightarrow> 0 | Some w \<Rightarrow> balanceOrZero w);
          newBalance = currentBalance + amount;
          fs1 = (case wallets fs collectorId of
                   Some w \<Rightarrow>
                     fs\<lparr>wallets := (wallets fs)(collectorId \<mapsto>
                          w\<lparr>w_balance := Some newBalance, w_updatedAt := Some now\<rparr>)\<rparr>
                 | None \<Rightarrow>
                     fs\<lparr>wallets := (wallets fs)(collectorId \<mapsto>
                          \<lparr> w_balance = Some newBalance, w_currency = ''GMD'',
                            w_createdAt = Some now, w_updatedAt = Some now \<rparr>)\<rparr>)
      in case transactionId of
           None \<Rightarrow> (Some InvalidArgument, fs1)
         | Some t \<Rightarrow>
             (None,
              fs1\<lparr>walletTransactions := walletTransactions fs1 @
                [(transId,
                  \<lparr> t_walletId = collectorId, t_type = credit, t_amount = amount,
                    t_description = description, t_transactionId = Some t,
                    t_paymentMethod = None, t_phoneNumber = None, t_status = None,
                    t_balanceAfter = newBalance, t_createdAt = now \<rparr>)]\<rparr>))"

definition withdrawFromWallet ::
  "timestamp \<Rightarrow> string \<Rightarrow> string \<Rightarrow> real \<Rightarrow> string \<Rightarrow> string \<Rightarrow> firestore \<Rightarrow>
   withdraw_result \<times> firestore"
where
  "withdrawFromWallet now transId collectorId amount paymentMethod phoneNumber fs =
     (case wallets fs collectorId of
        None \<Rightarrow>
          (\<lparr> wr_success = False, wr_error = Some ''Wallet not found'',
             wr_transactionId = None \<rparr>, fs)
      | Some w \<Rightarrow>
          (let currentBalance = balanceOrZero w in
           if amount > currentBalance then
             (\<lparr> wr_success = False, wr_error = Some ''Insufficient balance'',
                wr_transactionId = None \<rparr>, fs)
           else if amount < 50 then
             (\<lparr> wr_success = False, wr_error = Some ''Minimum withdrawal is 50 GMD'',
                wr_transactionId = None \<rparr>, fs)
           else
             (let newBalance = currentBalance - amount;
                  fs1 = fs\<lparr>wallets := (wallets fs)(collectorId \<mapsto>
                           w\<lparr>w_balance := Some newBalance, w_updatedAt := Some now\<rparr>)\<rparr>;
                  fs2 = fs1\<lparr>walletTransactions := walletTransactions fs1 @
                           [(transId,
                             \<lparr> t_walletId = collectorId, t_type = withdraw,
                               t_amount = - amount,
                               t_description =
                                 ''Withdrawal to '' @ paymentMethod @ '' ('' @ phoneNumber @ '')'',
                               t_transactionId = None,
                               t_paymentMethod = Some paymentMethod,
                               t_phoneNumber = Some phoneNumber,
                               t_status = Some ''pending'',
                               t_balanceAfter = newBalance,
                               t_createdAt = now \<rparr>)]\<rparr>
              in (\<lparr> wr_success = True, wr_error = None,
                    wr_transactionId = Some transId \<rparr>, fs2))))"

section \<open>Auto-matching and retry (\<open>autoMatchCollector\<close>, \<open>retryMatch\<close>)\<close>

record MatchResult =
  m_success :: bool
  m_collector :: "Collector option"
  m_distance :: "number option"
  m_estimatedArrival :: "string option"
  m_error :: "string option"

text \<open>Decimal rendering of the integers that a template literal interpolates.\<close>

fun showNat :: "nat \<Rightarrow> string" where
  "showNat n =
     (if n < 10 then [''0123456789'' ! n]
      else showNat (n div 10) @ [''0123456789'' ! (n mod 10)])"

declare showNat.simps [simp del]

definition showInt :: "int \<Rightarrow> string" where
  "showInt i = (if i < 0 then ''-'' @ showNat (nat (- i)) else showNat (nat i))"

text \<open>The remainder operator \<open>%\<close> of JavaScript takes the sign of the dividend.\<close>

definition jsRem :: "int \<Rightarrow> int \<Rightarrow> int" where
  "jsRem a b = sgn a * (\<bar>a\<bar> mod \<bar>b\<bar>)"

text \<open>\<open>Math.round\<close> rounds half-way cases up.\<close>

definition mathRound :: "real \<Rightarrow> int" where
  "mathRound x = \<lfloor>x + 1 / 2\<rfloor>"

text \<open>
  The estimated arrival. For the distance NaN, \<open>estimatedMinutes\<close> is NaN, the test
  \<open>estimatedMinutes < 60\<close> is false and both interpolations print \<open>NaN\<close>.
\<close>

definition estimatedArrivalOf :: "number \<Rightarrow> string" where
  "estimatedArrivalOf distance =
     (case distance of
        NaN \<Rightarrow> ''NaNh NaNm''
      | Num km \<Rightarrow>
          (let estimatedMinutes = mathRound ((km / 30) * 60)
           in if estimatedMinutes < 60 then showInt estimatedMinutes @ '' min''
              else showInt \<lfloor>real_of_int estimatedMinutes / 60\<rfloor> @ ''h '' @
                   showInt (jsRem estimatedMinutes 60) @ ''m''))"

definition matchFailure :: "string \<Rightarrow> MatchResult" where
  "matchFailure msg =
     \<lparr> m_success = False, m_collector = None, m_distance = None,
       m_estimatedArrival = None, m_error = Some msg \<rparr>"

text \<open>
  \<open>autoMatchCollector\<close>. The body is one \<open>try\<close> block: a rejected write of
  \<open>assignCollectorToRequest\<close> is caught and reported as a failed match.
\<close>

definition autoMatchCollector ::
  "distance_fn \<Rightarrow> timestamp \<Rightarrow> string \<Rightarrow> GeoLocation \<Rightarrow> WasteType \<Rightarrow> firestore \<Rightarrow>
   MatchResult \<times> firestore"
where
  "autoMatchCollector calculateDistance now requestId customerLocation wasteType fs =
     (case findNearestCollector calculateDistance now customerLocation wasteType fs of
        None \<Rightarrow>
          (matchFailure ''No collectors available for this waste type right now'', fs)
      | Some match \<Rightarrow>
          (case assignCollectorToRequest now requestId (c_id (fst match)) (snd match) fs of
             (Some e, fs1) \<Rightarrow> (matchFailure ''Failed to match with a collector'', fs1)
           | (None, fs1) \<Rightarrow>
               (\<lparr> m_success = True,
                  m_collector = Some (fst match),
                  m_distance = Some (snd match),
                  m_estimatedArrival = Some (estimatedArrivalOf (snd match)),
                  m_error = None \<rparr>, fs1)))"

text \<open>
  What \<open>retryMatch\<close> does besides reading and writing the store is recorded as a trace:
  one \<open>Attempt\<close> for each call of \<open>autoMatchCollector\<close>, one \<open>Wait ms\<close> for each
  \<open>setTimeout\<close> delay awaited.
\<close>

datatype event = Attempt | Wait real

text \<open>
  The \<open>for\<close> loop of \<open>retryMatch\<close>, from the counter value \<open>i\<close>, store \<open>fs\<close> and trace
  \<open>tr\<close>. It returns the successful match, if any, with the store and the trace.
\<close>

function retryLoop ::
  "distance_fn \<Rightarrow> timestamp \<Rightarrow> string \<Rightarrow> PickupRequest \<Rightarrow> int \<Rightarrow> real \<Rightarrow> int \<Rightarrow> firestore \<Rightarrow>
   event list \<Rightarrow> MatchResult option \<times> firestore \<times> event list"
where
  "retryLoop calculateDistance now requestId request maxRetries retryDelayMs i fs tr =
     (if i < maxRetries then
        (let r = autoMatchCollector calculateDistance now requestId (p_pickupLocation request)
                   (p_wasteType request) fs
         in if m_success (fst r) then (Some (fst r), snd r, tr @ [Attempt])
            else retryLoop calculateDistance now requestId request maxRetries retryDelayMs (i + 1)
                   (snd r)
                   (tr @ [Attempt] @ (if i < maxRetries - 1 then [Wait retryDelayMs] else [])))
      else (None, fs, tr))"
  by pat_completeness auto
termination
  by (relation "measure (\<lambda>(calculateDistance, now, requestId, request, maxRetries,
                         retryDelayMs, i, fs, tr). nat (maxRetries - i))") auto

declare retryLoop.simps [simp del]

definition retryMatch ::
  "distance_fn \<Rightarrow> timestamp \<Rightarrow> string \<Rightarrow> int \<Rightarrow> real \<Rightarrow> firestore \<Rightarrow>
   (error + MatchResult) \<times> firestore \<times> event list"
where
  "retryMatch calculateDistance now requestId maxRetries retryDelayMs fs =
     (case getPickupRequest now requestId fs of
        None \<Rightarrow> (Inr (matchFailure ''Request not found or already processed''), fs, [])
      | Some request \<Rightarrow>
          if p_status request \<noteq> pending
          then (Inr (matchFailure ''Request not found or already processed''), fs, [])
          else
            (case retryLoop calculateDistance now requestId request maxRetries retryDelayMs 0
                    fs [] of
               (Some match, fs1, tr) \<Rightarrow> (Inr match, fs1, tr)
             | (None, fs1, tr) \<Rightarrow>
                 (case updateRequestStatus now requestId cancelled
                         (\<lambda>d. d\<lparr>r_cancelReason :=
                                   Some ''No collectors available after multiple attempts''\<rparr>)
                         fs1 of
                    (Some e, fs2) \<Rightarrow> (Inl e, fs2, tr)
                  | (None, fs2) \<Rightarrow>
                      (Inr (matchFailure ''No collectors available. Please try again later.''),
                       fs2, tr))))"

text \<open>The default arguments: \<open>maxRetries = 3\<close>, \<open>retryDelayMs = 30000\<close>.\<close>

definition retryMatchDefault ::
  "distance_fn \<Rightarrow> timestamp \<Rightarrow> string \<Rightarrow> firestore \<Rightarrow>
   (error + MatchResult) \<times> firestore \<times> event list"
where
  "retryMatchDefault calculateDistance now requestId fs =
     retryMatch calculateDistance now requestId 3 30000 fs"

section \<open>The Realtime Database (src/lib/realtime.ts)\<close>

text \<open>
  The Realtime Database is a tree in which an absent child reads as \<open>null\<close>; a node
  exists when one of its children does. A node of \<open>jobs\<close> and a node of \<open>collectors\<close>
  therefore have optional children only, and the two subtrees are total functions from
  keys to nodes. Of a job, the children that the functions below read or write are
  modelled, and its customer, waste type, location, amount and payment children; the
  contact and address strings that only \<open>createJob\<close> writes are left out.
\<close>

datatype JobStatus =
  job_pending | job_assigned | job_accepted | job_in_progress | job_completed | job_cancelled

datatype JobPaymentStatus = payment_pending | payment_paid | payment_failed

record job_node =
  j_id :: "string option"
  j_customerId :: "string option"
  j_collectorId :: "string option"
  j_wasteType :: "string option"
  j_pickupLocation :: "GeoLocation option"
  j_amount :: "real option"
  j_paymentStatus :: "JobPaymentStatus option"
  j_paymentIntentId :: "string option"
  j_status :: "JobStatus option"
  j_createdAt :: "timestamp option"
  j_assignedAt :: "timestamp option"
  j_completedAt :: "timestamp option"

record status_node =
  online :: bool
  lastSeen :: timestamp

record collector_node =
  cn_location :: "GeoLocation option"
  cn_status :: "status_node option"
  cn_activeJob :: "string option"

record rtdb =
  jobs :: "string \<Rightarrow> job_node"
  collectors :: "string \<Rightarrow> collector_node"

definition emptyJob :: job_node where
  "emptyJob =
     \<lparr> j_id = None, j_customerId = None, j_collectorId = None, j_wasteType = None,
       j_pickupLocation = None, j_amount = None, j_paymentStatus = None,
       j_paymentIntentId = None, j_status = None, j_createdAt = None,
       j_assignedAt = None, j_completedAt = None \<rparr>"

text \<open>A child given by the later object replaces the earlier one.\<close>

definition orElse :: "'a option \<Rightarrow> 'a option \<Rightarrow> 'a option" where
  "orElse new old = (case new of None \<Rightarrow> old | Some v \<Rightarrow> Some v)"

text \<open>
  Object spread \<open>{...old, ...new}\<close> on job objects, which is also what
  \<open>update(jobRef, new)\<close> does to the stored node \<open>old\<close>.
\<close>

definition mergeJob :: "job_node \<Rightarrow> job_node \<Rightarrow> job_node" where
  "mergeJob old new =
     \<lparr> j_id = orElse (j_id new) (j_id old),
       j_customerId = orElse (j_customerId new) (j_customerId old),
       j_collectorId = orElse (j_collectorId new) (j_collectorId old),
       j_wasteType = orElse (j_wasteType new) (j_wasteType old),
       j_pickupLocation = orElse (j_pickupLocation new) (j_pickupLocation old),
       j_amount = orElse (j_amount new) (j_amount old),
       j_paymentStatus = orElse (j_paymentStatus new) (j_paymentStatus old),
       j_paymentIntentId = orElse (j_paymentIntentId new) (j_paymentIntentId old),
       j_status = orElse (j_status new) (j_status old),
       j_createdAt = orElse (j_createdAt new) (j_createdAt old),
       j_assignedAt = orElse (j_assignedAt new) (j_assignedAt old),
       j_completedAt = orElse (j_completedAt new) (j_completedAt old) \<rparr>"

definition updateJobStatus ::
  "timestamp \<Rightarrow> string \<Rightarrow> JobStatus \<Rightarrow> job_node option \<Rightarrow> rtdb \<Rightarrow> rtdb"
where
  "updateJobStatus now jobId status additionalData rt =
     rt\<lparr>jobs := (jobs rt)(jobId :=
          mergeJob (jobs rt jobId)
            (mergeJob
               (mergeJob (emptyJob\<lparr>j_status := Some status\<rparr>)
                  (case additionalData of None \<Rightarrow> emptyJob | Some a \<Rightarrow> a))
               (if status = job_completed then emptyJob\<lparr>j_completedAt := Some now\<rparr>
                else emptyJob)))\<rparr>"

definition assignCollectorToJob :: "timestamp \<Rightarrow> string \<Rightarrow> string \<Rightarrow> rtdb \<Rightarrow> rtdb" where
  "assignCollectorToJob now jobId collectorId rt =
     (let rt1 = rt\<lparr>jobs := (jobs rt)(jobId :=
                   mergeJob (jobs rt jobId)
                     (emptyJob\<lparr>j_collectorId := Some collectorId,
                               j_status := Some job_assigned,
                               j_assignedAt := Some now\<rparr>))\<rparr>
      in rt1\<lparr>collectors := (collectors rt1)(collectorId :=
               (collectors rt1 collectorId)\<lparr>cn_activeJob := Some jobId\<rparr>)\<rparr>)"

definition clearCollectorActiveJob :: "string \<Rightarrow> rtdb \<Rightarrow> rtdb" where
  "clearCollectorActiveJob collectorId rt =
     rt\<lparr>collectors := (collectors rt)(collectorId :=
          (collectors rt collectorId)\<lparr>cn_activeJob := None\<rparr>)\<rparr>"

section \<open>The collector dashboard (handlers of the dashboard page)\<close>

text \<open>A job object as the page holds it (interface \<open>RealtimeJob\<close>).\<close>

record RealtimeJob =
  rj_id :: string
  rj_customerId :: string
  rj_collectorId :: "string option"
  rj_wasteType :: string
  rj_pickupLocation :: GeoLocation
  rj_amount :: real
  rj_paymentStatus :: JobPaymentStatus
  rj_paymentIntentId :: "string option"
  rj_status :: JobStatus
  rj_createdAt :: timestamp
  rj_assignedAt :: "timestamp option"
  rj_completedAt :: "timestamp option"

datatype IslandSize = size_compact | size_large | size_long

text \<open>The component state that the two handlers read or set.\<close>

record dashboard =
  d_activeJob :: "RealtimeJob option"
  d_incomingJob :: "RealtimeJob option"
  d_walletBalance :: real
  d_remainingCapacity :: real
  d_size :: IslandSize

text \<open>Both stores and the page.\<close>

record world =
  st_rt :: rtdb
  st_fs :: firestore
  st_ui :: dashboard

definition handleAcceptJob :: "timestamp \<Rightarrow> string \<Rightarrow> world \<Rightarrow> world" where
  "handleAcceptJob now collectorId st =
     (case d_incomingJob (st_ui st) of
        None \<Rightarrow> st
      | Some incomingJob \<Rightarrow>
          (let rt1 = assignCollectorToJob now (rj_id incomingJob) collectorId (st_rt st);
               rt2 = updateJobStatus now (rj_id incomingJob) job_accepted None rt1
           in st\<lparr>st_rt := rt2,
                 st_ui := (st_ui st)
                   \<lparr>d_activeJob := Some (incomingJob\<lparr>rj_collectorId := Some collectorId,
                                                     rj_status := job_accepted\<rparr>),
                    d_incomingJob := None,
                    d_size := size_long\<rparr>\<rparr>))"

definition handleCompleteJob :: "timestamp \<Rightarrow> string \<Rightarrow> world \<Rightarrow> world" where
  "handleCompleteJob now collectorId st =
     (case d_activeJob (st_ui st) of
        None \<Rightarrow> st
      | Some activeJob \<Rightarrow>
          (let rt1 = updateJobStatus now (rj_id activeJob) job_completed None (st_rt st);
               rt2 = clearCollectorActiveJob collectorId rt1
           in st\<lparr>st_rt := rt2,
                 st_ui := (st_ui st)
                   \<lparr>d_walletBalance := d_walletBalance (st_ui st) + rj_amount activeJob,
                    d_remainingCapacity := max 0 (d_remainingCapacity (st_ui st) - 20),
                    d_activeJob := None,
                    d_size := size_compact\<rparr>\<rparr>))"

section \<open>Notions of the specification\<close>

text \<open>The distance from a pickup location to a stored position.\<close>

abbreviation distanceTo :: "distance_fn \<Rightarrow> GeoLocation \<Rightarrow> GeoLocation \<Rightarrow> number" where
  "distanceTo calculateDistance a b \<equiv> calculateDistance (lat a) (lng a) (lat b) (lng b)"

text \<open>
  An eligible collector, in the words of the specification: a collector that is
  available, has a location, and whose declared waste types contain the required one.
\<close>

definition eligible :: "WasteType \<Rightarrow> string \<times> user_doc \<Rightarrow> bool" where
  "eligible wasteType d =
     (u_role (snd d) = role_collector \<and> u_isAvailable (snd d) \<and>
      u_currentLocation (snd d) \<noteq> None \<and> wasteType \<in> set (u_wasteTypesHandled (snd d)))"

text \<open>
  The schedule of the specification for \<open>n\<close> attempts: the attempts one after the other,
  with one wait of the configured delay between two consecutive attempts.
\<close>

fun retrySchedule :: "nat \<Rightarrow> real \<Rightarrow> event list" where
  "retrySchedule 0 ms = []"
| "retrySchedule (Suc 0) ms = [Attempt]"
| "retrySchedule (Suc (Suc n)) ms = Attempt # Wait ms # retrySchedule (Suc n) ms"

section \<open>Example states\<close>

definition pickupPoint :: GeoPoint where
  "pickupPoint = \<lparr> latitude = 13.4549, longitude = - 16.5790 \<rparr>"

definition pickupLocation :: GeoLocation where
  "pickupLocation =
     \<lparr> lat = 13.4549, lng = - 16.5790, address = None, formattedAddress = Some ''Banjul'' \<rparr>"

definition collectorDoc :: "WasteType list \<Rightarrow> bool \<Rightarrow> GeoPoint option \<Rightarrow> user_doc" where
  "collectorDoc handled avail pos =
     \<lparr> u_email = ''collector@example.org'', u_name = ''Collector'', u_phone = ''7000000'',
       u_role = role_collector, u_wasteTypesHandled = handled, u_isAvailable = avail,
       u_currentLocation = pos, u_currentRequestId = None, u_rating = 5,
       u_totalPickups = 0, u_earnings = 0, u_createdAt = Some 0, u_updatedAt = Some 0 \<rparr>"

definition requestDoc :: "WasteType \<Rightarrow> RequestStatus \<Rightarrow> string option \<Rightarrow> request_doc" where
  "requestDoc wasteType status collectorId =
     \<lparr> r_customerId = ''customer1'', r_collectorId = collectorId, r_wasteType = wasteType,
       r_wasteSize = medium, r_pickupLocation = pickupPoint, r_pickupAddress = ''Banjul'',
       r_estimatedPrice = 250, r_finalPrice = None, r_distance = None, r_status = status,
       r_createdAt = Some 0, r_assignedAt = None, r_completedAt = None,
       r_updatedAt = None, r_cancelReason = None \<rparr>"

definition emptyStore :: firestore where
  "emptyStore =
     \<lparr> requests = Map.empty, users = [], payments = [], wallets = Map.empty,
       walletTransactions = [] \<rparr>"

text \<open>
  The scenario of the specification: a request for \<open>electronic\<close> waste; a collector for
  household waste only at the pickup point itself, and a collector for electronic and
  household waste further away.
\<close>

definition scenarioStore :: firestore where
  "scenarioStore =
     emptyStore
       \<lparr> requests := [''r1'' \<mapsto> requestDoc electronic pending None],
         users :=
           [(''near'', collectorDoc [household] True (Some pickupPoint)),
            (''far'', collectorDoc [electronic, household] True
                       (Some \<lparr> latitude = 13.46, longitude = - 16.58 \<rparr>))] \<rparr>"


text \<open>
  A pickup at \<open>(-82, -179)\<close>, collector \<open>a\<close> at the nearly antipodal position
  \<open>(82, 1)\<close> and collector \<open>b\<close> at the pickup position itself.
\<close>

definition southPoint :: GeoPoint where
  "southPoint = \<lparr> latitude = - 82, longitude = - 179 \<rparr>"

definition southLocation :: GeoLocation where
  "southLocation = \<lparr> lat = - 82, lng = - 179, address = None, formattedAddress = None \<rparr>"

definition antipodeStore :: firestore where
  "antipodeStore =
     emptyStore
       \<lparr> users :=
           [(''a'', collectorDoc [household] True
                     (Some \<lparr> latitude = 82, longitude = 1 \<rparr>)),
            (''b'', collectorDoc [household] True (Some southPoint))] \<rparr>"

text \<open>
  A distance function with the values of the code's \<open>calculateDistance\<close> that the
  examples need: \<open>0\<close> from a point to itself, NaN from \<open>(-82, -179)\<close> to \<open>(82, 1)\<close>.
  The examples apply it to no other pair.
\<close>

definition exampleDistance :: distance_fn where
  "exampleDistance lat1 lng1 lat2 lng2 =
     (if lat1 = lat2 \<and> lng1 = lng2 then Num 0 else NaN)"

text \<open>A pending request whose only payment document is still pending, and a collector.\<close>

definition unpaidStore :: firestore where
  "unpaidStore =
     emptyStore
       \<lparr> requests := [''r1'' \<mapsto> requestDoc household pending None],
         users := [(''c1'', collectorDoc [household] True (Some pickupPoint))],
         payments :=
           [(''pay1'',
             \<lparr> pm_requestId = ''r1'', pm_customerId = ''customer1'', pm_collectorId = ''c1'',
               pm_amount = 250, pm_currency = ''GMD'', pm_status = pay_pending,
               pm_method = wave, pm_transactionId = None, pm_createdAt = 0,
               pm_updatedAt = None, pm_completedAt = None \<rparr>)] \<rparr>"

text \<open>A pending request and no collector for its waste type.\<close>

definition noCollectorStore :: firestore where
  "noCollectorStore =
     emptyStore
       \<lparr> requests := [''r1'' \<mapsto> requestDoc medical pending None],
         users := [(''c1'', collectorDoc [household] True (Some pickupPoint))] \<rparr>"

text \<open>
  Request \<open>r1\<close>, which an earlier dispatch assigned to collector \<open>c1\<close>, and a second,
  pending request \<open>r2\<close>.
\<close>

definition assignedStore :: firestore where
  "assignedStore =
     emptyStore
       \<lparr> requests := [''r1'' \<mapsto> requestDoc household assigned (Some ''c1''),
                      ''r2'' \<mapsto> requestDoc household pending None],
         users :=
           [(''c1'', (collectorDoc [household] False (Some pickupPoint))
                      \<lparr>u_currentRequestId := Some ''r1''\<rparr>),
            (''c2'', collectorDoc [household] True (Some pickupPoint))] \<rparr>"

text \<open>A wallet holding 100 GMD.\<close>

definition walletStore :: firestore where
  "walletStore =
     emptyStore
       \<lparr> wallets := [''c1'' \<mapsto> \<lparr> w_balance = Some 100, w_currency = ''GMD'',
                                 w_createdAt = Some 0, w_updatedAt = Some 0 \<rparr>] \<rparr>"

definition emptyCollector :: collector_node where
  "emptyCollector = \<lparr> cn_location = None, cn_status = None, cn_activeJob = None \<rparr>"

definition jobNode ::
  "string \<Rightarrow> JobStatus \<Rightarrow> JobPaymentStatus \<Rightarrow> string option \<Rightarrow> job_node"
where
  "jobNode jobId status payment collectorId =
     \<lparr> j_id = Some jobId, j_customerId = Some ''customer@example.org'',
       j_collectorId = collectorId, j_wasteType = Some ''household'',
       j_pickupLocation = Some pickupLocation, j_amount = Some 250,
       j_paymentStatus = Some payment, j_paymentIntentId = Some ''intent1'',
       j_status = Some status, j_createdAt = Some 0, j_assignedAt = None,
       j_completedAt = None \<rparr>"

definition jobObject ::
  "string \<Rightarrow> JobStatus \<Rightarrow> JobPaymentStatus \<Rightarrow> string option \<Rightarrow> RealtimeJob"
where
  "jobObject jobId status payment collectorId =
     \<lparr> rj_id = jobId, rj_customerId = ''customer@example.org'',
       rj_collectorId = collectorId, rj_wasteType = ''household'',
       rj_pickupLocation = pickupLocation, rj_amount = 250,
       rj_paymentStatus = payment, rj_paymentIntentId = Some ''intent1'',
       rj_status = status, rj_createdAt = 0, rj_assignedAt = None,
       rj_completedAt = None \<rparr>"

text \<open>
  Collector \<open>c1\<close> is online and busy with the accepted job \<open>j1\<close>; job \<open>j2\<close> is pending
  and its payment is pending; job \<open>j3\<close> is completed.
\<close>

definition busyDb :: rtdb where
  "busyDb =
     \<lparr> jobs = (\<lambda>k. emptyJob)
         (''j1'' := jobNode ''j1'' job_accepted payment_paid (Some ''c1''),
          ''j2'' := jobNode ''j2'' job_pending payment_pending None,
          ''j3'' := (jobNode ''j3'' job_completed payment_paid (Some ''c2''))
                     \<lparr>j_completedAt := Some 3\<rparr>),
       collectors = (\<lambda>k. emptyCollector)
         (''c1'' := \<lparr> cn_location = Some pickupLocation,
                      cn_status = Some \<lparr> online = True, lastSeen = 1 \<rparr>,
                      cn_activeJob = Some ''j1'' \<rparr>) \<rparr>"

definition idleDashboard :: dashboard where
  "idleDashboard =
     \<lparr> d_activeJob = None, d_incomingJob = None, d_walletBalance = 100,
       d_remainingCapacity = 100, d_size = size_compact \<rparr>"

text \<open>The page of collector \<open>c3\<close> shows the unpaid pending job \<open>j2\<close> as incoming.\<close>

definition incomingWorld :: world where
  "incomingWorld =
     \<lparr> st_rt = busyDb, st_fs = walletStore,
       st_ui = idleDashboard
         \<lparr>d_incomingJob := Some (jobObject ''j2'' job_pending payment_pending None),
          d_size := size_large\<rparr> \<rparr>"

text \<open>The page of collector \<open>c1\<close>, at work on job \<open>j1\<close>, with a stored wallet of 100 GMD.\<close>

definition activeWorld :: world where
  "activeWorld =
     \<lparr> st_rt = busyDb, st_fs = walletStore,
       st_ui = idleDashboard
         \<lparr>d_activeJob := Some (jobObject ''j1'' job_accepted payment_paid (Some ''c1'')),
          d_size := size_long\<rparr> \<rparr>"

section \<open>The matcher\<close>

lemma jsLess_Num: "jsLess x y \<Longrightarrow> \<exists>a b. x = Num a \<and> y = Num b \<and> a < b"
  by (cases x; cases y) simp_all

lemma jsLess_irrefl: "\<not> jsLess x x"
  by (cases x) simp_all

lemma jsLess_trans: "jsLess x y \<Longrightarrow> jsLess y z \<Longrightarrow> jsLess x z"
  by (cases x; cases y; cases z) simp_all

lemma not_jsLess_le: "\<not> jsLess x y \<Longrightarrow> jsLess z y \<Longrightarrow> x \<noteq> z \<and> \<not> jsLessEq x z"
  by (cases x; cases y; cases z) auto

lemma jsLess_neq: "jsLess z x \<Longrightarrow> x \<noteq> z \<and> \<not> jsLessEq x z"
  by (cases x; cases z) auto

lemma nearestLoop_Some_acc: "nearestLoop f loc cs (Some n) \<noteq> None"
  by (induction cs arbitrary: n) (auto split: option.splits simp: Let_def)

lemma nearestLoop_None:
  "(nearestLoop f loc cs None = None) = (\<forall>c\<in>set cs. c_currentLocation c = None)"
  by (induction cs) (auto split: option.splits simp: Let_def nearestLoop_Some_acc)

lemma nearestLoop_acc:
  "nearestLoop f loc cs (Some n) = Some r \<Longrightarrow> r = n \<or> jsLess (snd r) (snd n)"
proof (induction cs arbitrary: n)
  case Nil
  then show ?case by simp
next
  case (Cons x xs)
  show ?case
  proof (cases "c_currentLocation x")
    case None
    with Cons show ?thesis by simp
  next
    case (Some lx)
    show ?thesis
    proof (cases "jsLess (distanceTo f loc lx) (snd n)")
      case True
      with Some Cons.prems have "nearestLoop f loc xs (Some (x, distanceTo f loc lx)) = Some r"
        by (simp add: Let_def)
      from Cons.IH [OF this] True show ?thesis
        by (auto intro: jsLess_trans)
    next
      case False
      with Some Cons.prems have "nearestLoop f loc xs (Some n) = Some r"
        by (simp add: Let_def)
      from Cons.IH [OF this] show ?thesis .
    qed
  qed
qed

lemma nearestLoop_unbeaten:
  "nearestLoop f loc cs acc = Some r \<Longrightarrow> c' \<in> set cs \<Longrightarrow> c_currentLocation c' = Some l' \<Longrightarrow>
   \<not> jsLess (distanceTo f loc l') (snd r)"
proof (induction cs arbitrary: acc)
  case Nil
  then show ?case by simp
next
  case (Cons x xs)
  show ?case
  proof (cases "c_currentLocation x")
    case None
    with Cons.prems have "nearestLoop f loc xs acc = Some r" "c' \<in> set xs" by auto
    from Cons.IH [OF this Cons.prems(3)] show ?thesis .
  next
    case (Some lx)
    let ?dx = "distanceTo f loc lx"
    let ?upd = "case acc of None \<Rightarrow> True | Some n \<Rightarrow> jsLess ?dx (snd n)"
    show ?thesis
    proof (cases ?upd)
      case True
      with Some Cons.prems(1) have run: "nearestLoop f loc xs (Some (x, ?dx)) = Some r"
        by (simp add: Let_def split: option.splits)
      show ?thesis
      proof (cases "c' = x")
        case True
        with Some Cons.prems(3) have "l' = lx" by simp
        with nearestLoop_acc [OF run] show ?thesis
          by (auto simp: jsLess_irrefl dest: jsLess_trans)
      next
        case False
        with Cons.prems(2) have "c' \<in> set xs" by simp
        from Cons.IH [OF run this Cons.prems(3)] show ?thesis .
      qed
    next
      case False
      then obtain n where n: "acc = Some n" "\<not> jsLess ?dx (snd n)"
        by (auto split: option.splits)
      with Some Cons.prems(1) have run: "nearestLoop f loc xs (Some n) = Some r"
        by (simp add: Let_def)
      show ?thesis
      proof (cases "c' = x")
        case True
        with Some Cons.prems(3) have "l' = lx" by simp
        with nearestLoop_acc [OF run] n(2) show ?thesis
          by (auto dest: jsLess_trans)
      next
        case False
        with Cons.prems(2) have "c' \<in> set xs" by simp
        from Cons.IH [OF run [folded n(1)] this Cons.prems(3)] show ?thesis .
      qed
    qed
  qed
qed

lemma nearestLoop_first:
  "nearestLoop f loc cs acc = Some r \<Longrightarrow>
   acc = Some r \<or>
   (\<exists>pre post l. cs = pre @ fst r # post \<and> c_currentLocation (fst r) = Some l \<and>
      snd r = distanceTo f loc l \<and>
      (\<forall>c'\<in>set pre. \<forall>l'. c_currentLocation c' = Some l' \<longrightarrow>
         distanceTo f loc l' \<noteq> snd r \<and> \<not> jsLessEq (distanceTo f loc l') (snd r)) \<and>
      (\<forall>n. acc = Some n \<longrightarrow> jsLess (snd r) (snd n)))"
proof (induction cs arbitrary: acc)
  case Nil
  then show ?case by simp
next
  case (Cons x xs)
  show ?case
  proof (cases "c_currentLocation x")
    case None
    with Cons.prems have "nearestLoop f loc xs acc = Some r" by simp
    from Cons.IH [OF this] show ?thesis
    proof
      assume "acc = Some r" then show ?thesis by simp
    next
      assume "\<exists>pre post l. xs = pre @ fst r # post \<and> c_currentLocation (fst r) = Some l \<and>
        snd r = distanceTo f loc l \<and>
        (\<forall>c'\<in>set pre. \<forall>l'. c_currentLocation c' = Some l' \<longrightarrow>
           distanceTo f loc l' \<noteq> snd r \<and> \<not> jsLessEq (distanceTo f loc l') (snd r)) \<and>
        (\<forall>n. acc = Some n \<longrightarrow> jsLess (snd r) (snd n))"
      then obtain pre post l where d: "xs = pre @ fst r # post" "c_currentLocation (fst r) = Some l"
        "snd r = distanceTo f loc l"
        "\<forall>c'\<in>set pre. \<forall>l'. c_currentLocation c' = Some l' \<longrightarrow>
           distanceTo f loc l' \<noteq> snd r \<and> \<not> jsLessEq (distanceTo f loc l') (snd r)"
        "\<forall>n. acc = Some n \<longrightarrow> jsLess (snd r) (snd n)"
        by blast
      have "x # xs = (x # pre) @ fst r # post" using d(1) by simp
      moreover have "\<forall>c'\<in>set (x # pre). \<forall>l'. c_currentLocation c' = Some l' \<longrightarrow>
           distanceTo f loc l' \<noteq> snd r \<and> \<not> jsLessEq (distanceTo f loc l') (snd r)"
        using d(4) None by simp
      ultimately show ?thesis using d(2,3,5) by blast
    qed
  next
    case (Some lx)
    let ?dx = "distanceTo f loc lx"
    let ?upd = "case acc of None \<Rightarrow> True | Some n \<Rightarrow> jsLess ?dx (snd n)"
    show ?thesis
    proof (cases ?upd)
      case True
      with Some Cons.prems have run: "nearestLoop f loc xs (Some (x, ?dx)) = Some r"
        by (simp add: Let_def split: option.splits)
      have accb: "\<forall>n. acc = Some n \<longrightarrow> jsLess ?dx (snd n)"
        using True by (auto split: option.splits)
      from Cons.IH [OF run] show ?thesis
      proof
        assume "Some (x, ?dx) = Some r"
        then have r: "r = (x, ?dx)" by simp
        have "x # xs = [] @ fst r # xs" using r by simp
        then show ?thesis using r Some accb by fastforce
      next
        assume "\<exists>pre post l. xs = pre @ fst r # post \<and> c_currentLocation (fst r) = Some l \<and>
          snd r = distanceTo f loc l \<and>
          (\<forall>c'\<in>set pre. \<forall>l'. c_currentLocation c' = Some l' \<longrightarrow>
             distanceTo f loc l' \<noteq> snd r \<and> \<not> jsLessEq (distanceTo f loc l') (snd r)) \<and>
          (\<forall>n. Some (x, ?dx) = Some n \<longrightarrow> jsLess (snd r) (snd n))"
        then obtain pre post l where d: "xs = pre @ fst r # post" "c_currentLocation (fst r) = Some l"
          "snd r = distanceTo f loc l"
          "\<forall>c'\<in>set pre. \<forall>l'. c_currentLocation c' = Some l' \<longrightarrow>
             distanceTo f loc l' \<noteq> snd r \<and> \<not> jsLessEq (distanceTo f loc l') (snd r)"
          "jsLess (snd r) ?dx"
          by auto
        have "x # xs = (x # pre) @ fst r # post" using d(1) by simp
        moreover have "\<forall>c'\<in>set (x # pre). \<forall>l'. c_currentLocation c' = Some l' \<longrightarrow>
             distanceTo f loc l' \<noteq> snd r \<and> \<not> jsLessEq (distanceTo f loc l') (snd r)"
          using d(4) jsLess_neq [OF d(5)] Some by simp
        moreover have "\<forall>n. acc = Some n \<longrightarrow> jsLess (snd r) (snd n)"
          using accb d(5) by (auto intro: jsLess_trans)
        ultimately show ?thesis using d(2,3) by blast
      qed
    next
      case False
      then obtain n where n: "acc = Some n" "\<not> jsLess ?dx (snd n)" by (auto split: option.splits)
      with Some Cons.prems have run: "nearestLoop f loc xs acc = Some r"
        by (simp add: Let_def)
      from Cons.IH [OF run] show ?thesis
      proof
        assume "acc = Some r" then show ?thesis by simp
      next
        assume "\<exists>pre post l. xs = pre @ fst r # post \<and> c_currentLocation (fst r) = Some l \<and>
          snd r = distanceTo f loc l \<and>
          (\<forall>c'\<in>set pre. \<forall>l'. c_currentLocation c' = Some l' \<longrightarrow>
             distanceTo f loc l' \<noteq> snd r \<and> \<not> jsLessEq (distanceTo f loc l') (snd r)) \<and>
          (\<forall>n. acc = Some n \<longrightarrow> jsLess (snd r) (snd n))"
        then obtain pre post l where d: "xs = pre @ fst r # post" "c_currentLocation (fst r) = Some l"
          "snd r = distanceTo f loc l"
          "\<forall>c'\<in>set pre. \<forall>l'. c_currentLocation c' = Some l' \<longrightarrow>
             distanceTo f loc l' \<noteq> snd r \<and> \<not> jsLessEq (distanceTo f loc l') (snd r)"
          "\<forall>n. acc = Some n \<longrightarrow> jsLess (snd r) (snd n)"
          by blast
        have lt: "jsLess (snd r) (snd n)" using d(5) n(1) by simp
        have "x # xs = (x # pre) @ fst r # post" using d(1) by simp
        moreover have "\<forall>c'\<in>set (x # pre). \<forall>l'. c_currentLocation c' = Some l' \<longrightarrow>
             distanceTo f loc l' \<noteq> snd r \<and> \<not> jsLessEq (distanceTo f loc l') (snd r)"
          using d(4) not_jsLess_le [OF n(2) lt] Some by simp
        ultimately show ?thesis using d(2,3,5) by blast
      qed
    qed
  qed
qed

lemma toCollector_location:
  "c_currentLocation (toCollector now d) =
     map_option (\<lambda>g. \<lparr> lat = latitude g, lng = longitude g, address = None, formattedAddress = None \<rparr>)
       (u_currentLocation (snd d))"
  by (simp add: toCollector_def split: option.splits)

lemma eligible_iff:
  "eligible wt d = (availableQuery wt d \<and> u_currentLocation (snd d) \<noteq> None)"
  by (auto simp: eligible_def availableQuery_def)

lemma available_set:
  "set (getAvailableCollectors now wt fs) = toCollector now ` {d \<in> set (users fs). availableQuery wt d}"
  by (auto simp: getAvailableCollectors_def)




lemmas ex_simps = findNearestCollector_def getAvailableCollectors_def emptyStore_def
  availableQuery_def collectorDoc_def toCollector_def pickupPoint_def pickupLocation_def
  southPoint_def southLocation_def exampleDistance_def

text \<open>
  What the selection guarantees for every distance function: with an eligible collector
  present, the result is an eligible collector with the distance to that collector, and
  no eligible collector has a distance that is strictly less by the test of the loop.
\<close>

lemma findNearestCollector_eligible_unbeaten:
  assumes "\<exists>d\<in>set (users fs). eligible wasteType d"
  shows "\<exists>d\<in>set (users fs). \<exists>g.
           eligible wasteType d \<and> u_currentLocation (snd d) = Some g \<and>
           findNearestCollector calculateDistance now loc wasteType fs =
             Some (toCollector now d,
                   calculateDistance (lat loc) (lng loc) (latitude g) (longitude g)) \<and>
           (\<forall>d'\<in>set (users fs). \<forall>g'.
              eligible wasteType d' \<longrightarrow> u_currentLocation (snd d') = Some g' \<longrightarrow>
              \<not> jsLess (calculateDistance (lat loc) (lng loc) (latitude g') (longitude g'))
                       (calculateDistance (lat loc) (lng loc) (latitude g) (longitude g)))"
proof -
  let ?cs = "getAvailableCollectors now wasteType fs"
  from assms obtain e where e: "e \<in> set (users fs)" "eligible wasteType e" by blast
  then have e_in: "toCollector now e \<in> set ?cs"
    by (auto simp: available_set eligible_iff)
  have e_loc: "c_currentLocation (toCollector now e) \<noteq> None"
    using e(2) by (auto simp: toCollector_location eligible_def)
  have "nearestLoop calculateDistance loc ?cs None \<noteq> None"
    using e_in e_loc by (auto simp: nearestLoop_None)
  then obtain r where run: "nearestLoop calculateDistance loc ?cs None = Some r" by blast
  have res: "findNearestCollector calculateDistance now loc wasteType fs = Some r"
    using run e_in by (auto simp: findNearestCollector_def Let_def)
  from nearestLoop_first [OF run] obtain l where
    r: "fst r \<in> set ?cs" "c_currentLocation (fst r) = Some l"
       "snd r = distanceTo calculateDistance loc l"
    by auto
  from r(1) obtain d where d: "d \<in> set (users fs)" "availableQuery wasteType d"
      "fst r = toCollector now d"
    by (auto simp: available_set)
  from r(2) d(3) obtain g where g: "u_currentLocation (snd d) = Some g"
      "l = \<lparr> lat = latitude g, lng = longitude g, address = None, formattedAddress = None \<rparr>"
    by (auto simp: toCollector_location)
  have elig: "eligible wasteType d" using d(2) g(1) by (simp add: eligible_iff)
  have val: "r = (toCollector now d, calculateDistance (lat loc) (lng loc) (latitude g) (longitude g))"
    using d(3) r(3) g(2) by (cases r) simp
  have least: "\<forall>d'\<in>set (users fs). \<forall>g'.
      eligible wasteType d' \<longrightarrow> u_currentLocation (snd d') = Some g' \<longrightarrow>
      \<not> jsLess (calculateDistance (lat loc) (lng loc) (latitude g') (longitude g'))
               (calculateDistance (lat loc) (lng loc) (latitude g) (longitude g))"
  proof (intro ballI allI impI)
    fix d' g'
    assume a: "d' \<in> set (users fs)" "eligible wasteType d'" "u_currentLocation (snd d') = Some g'"
    then have in': "toCollector now d' \<in> set ?cs"
      by (auto simp: available_set eligible_iff)
    have loc': "c_currentLocation (toCollector now d') =
        Some \<lparr> lat = latitude g', lng = longitude g', address = None, formattedAddress = None \<rparr>"
      using a(3) by (simp add: toCollector_location)
    from nearestLoop_unbeaten [OF run in' loc'] val
    show "\<not> jsLess (calculateDistance (lat loc) (lng loc) (latitude g') (longitude g'))
               (calculateDistance (lat loc) (lng loc) (latitude g) (longitude g))" by simp
  qed
  with d(1) elig g(1) res val show ?thesis by blast
qed

text \<open>
  The scenario of the specification: the collector without the required waste type is
  not a candidate, however near, so the eligible collector is selected.
\<close>

lemma scenario_selects_eligible:
  "map_option (c_id \<circ> fst)
     (findNearestCollector calculateDistance now pickupLocation electronic scenarioStore) =
   Some ''far''"
  by (simp add: ex_simps scenarioStore_def)


text \<open>
  Claim C2 against the code. For the pickup at \<open>(-82, -179)\<close>, the eligible collectors
  \<open>a\<close> at \<open>(82, 1)\<close> and \<open>b\<close> at the pickup position, and a distance function with the
  code's values NaN for \<open>a\<close> and \<open>0\<close> for \<open>b\<close>: collector \<open>a\<close> is traversed first and
  taken, \<open>distance < NaN\<close> is false for \<open>b\<close>, and \<open>a\<close> is returned with the distance NaN,
  which is not less than or equal to the distance \<open>0\<close> of \<open>b\<close>.
\<close>

theorem findNearestCollector_nan_selected:
  assumes "calculateDistance (- 82) (- 179) 82 1 = NaN"
    and "calculateDistance (- 82) (- 179) (- 82) (- 179) = Num 0"
  shows "map (\<lambda>d. (fst d, eligible household d)) (users antipodeStore) =
           [(''a'', True), (''b'', True)] \<and>
         map (\<lambda>c. (c_id c, map_option (distanceTo calculateDistance southLocation)
                             (c_currentLocation c)))
           (getAvailableCollectors 0 household antipodeStore) =
           [(''a'', Some NaN), (''b'', Some (Num 0))] \<and>
         map_option (\<lambda>m. (c_id (fst m), snd m))
           (findNearestCollector calculateDistance 0 southLocation household antipodeStore) =
           Some (''a'', NaN) \<and>
         \<not> jsLessEq NaN (Num 0)"
  using assms
  by (simp add: ex_simps antipodeStore_def eligible_def)

theorem findNearestCollector_nan_selected_witness:
  "exampleDistance (- 82) (- 179) 82 1 = NaN \<and>
   exampleDistance (- 82) (- 179) (- 82) (- 179) = Num 0 \<and>
   map_option (\<lambda>m. (c_id (fst m), snd m))
     (findNearestCollector exampleDistance 0 southLocation household antipodeStore) =
     Some (''a'', NaN)"
proof -
  have h1: "exampleDistance (- 82) (- 179) 82 1 = NaN"
    by (simp add: exampleDistance_def)
  have h2: "exampleDistance (- 82) (- 179) (- 82) (- 179) = Num 0"
    by (simp add: exampleDistance_def)
  from h1 h2 findNearestCollector_nan_selected [of exampleDistance, OF h1 h2] show ?thesis by simp
qed

section \<open>Assignment of a collector\<close>

lemmas rt_simps = busyDb_def jobNode_def emptyCollector_def assignCollectorToJob_def
  updateJobStatus_def clearCollectorActiveJob_def mergeJob_def emptyJob_def orElse_def Let_def

text \<open>
  Claim C1, as amended. Neither assignment function looks at what the collector is
  doing. \<open>assignCollectorToJob\<close> always writes the collector, the status \<open>assigned\<close> and
  the assignment time to the job and makes the job the collector's \<open>activeJob\<close>,
  replacing any earlier one. \<open>assignCollectorToRequest\<close>, when the request and the user
  documents exist, always succeeds, writes the collector and the status \<open>assigned\<close> to
  the request, and sets the collector's \<open>isAvailable\<close> to false and its
  \<open>currentRequestId\<close> to the new request. What keeps a busy collector from a second
  request is the selection alone: after \<open>assignCollectorToRequest\<close> on an existing
  request, \<open>getAvailableCollectors\<close> no longer returns the collector.
\<close>

theorem assignCollector_unconditional:
  "cn_activeJob (collectors (assignCollectorToJob now jobId collectorId rt) collectorId) = Some jobId \<and>
   j_collectorId (jobs (assignCollectorToJob now jobId collectorId rt) jobId) = Some collectorId \<and>
   j_status (jobs (assignCollectorToJob now jobId collectorId rt) jobId) = Some job_assigned \<and>
   j_assignedAt (jobs (assignCollectorToJob now jobId collectorId rt) jobId) = Some now \<and>
   (requests fs requestId \<noteq> None \<and> collectorId \<in> fst ` set (users fs) \<longrightarrow>
      fst (assignCollectorToRequest now requestId collectorId km fs) = None \<and>
      map_option (\<lambda>d. (r_collectorId d, r_status d))
        (requests (snd (assignCollectorToRequest now requestId collectorId km fs)) requestId) =
        Some (Some collectorId, assigned) \<and>
      map (\<lambda>d. (u_isAvailable (snd d), u_currentRequestId (snd d)))
        (filter (\<lambda>d. fst d = collectorId)
           (users (snd (assignCollectorToRequest now requestId collectorId km fs)))) =
        map (\<lambda>d. (False, Some requestId)) (filter (\<lambda>d. fst d = collectorId) (users fs))) \<and>
   (requests fs requestId \<noteq> None \<longrightarrow>
      collectorId \<notin> c_id ` set (getAvailableCollectors later wasteType
        (snd (assignCollectorToRequest now requestId collectorId km fs))))"
proof -
  have writes:
    "cn_activeJob (collectors (assignCollectorToJob now jobId collectorId rt) collectorId) = Some jobId \<and>
     j_collectorId (jobs (assignCollectorToJob now jobId collectorId rt) jobId) = Some collectorId \<and>
     j_status (jobs (assignCollectorToJob now jobId collectorId rt) jobId) = Some job_assigned \<and>
     j_assignedAt (jobs (assignCollectorToJob now jobId collectorId rt) jobId) = Some now \<and>
     (requests fs requestId \<noteq> None \<and> collectorId \<in> fst ` set (users fs) \<longrightarrow>
        fst (assignCollectorToRequest now requestId collectorId km fs) = None \<and>
        map_option (\<lambda>d. (r_collectorId d, r_status d))
          (requests (snd (assignCollectorToRequest now requestId collectorId km fs)) requestId) =
          Some (Some collectorId, assigned) \<and>
        map (\<lambda>d. (u_isAvailable (snd d), u_currentRequestId (snd d)))
          (filter (\<lambda>d. fst d = collectorId)
             (users (snd (assignCollectorToRequest now requestId collectorId km fs)))) =
          map (\<lambda>d. (False, Some requestId)) (filter (\<lambda>d. fst d = collectorId) (users fs)))"
    by (auto simp: assignCollectorToJob_def assignCollectorToRequest_def updateRequestDoc_def
        updateUserDoc_def mergeJob_def emptyJob_def orElse_def Let_def filter_map comp_def
        split: option.splits intro!: map_cong filter_cong)
  have hidden:
    "requests fs requestId \<noteq> None \<longrightarrow>
       collectorId \<notin> c_id ` set (getAvailableCollectors later wasteType
         (snd (assignCollectorToRequest now requestId collectorId km fs)))"
    by (auto simp: assignCollectorToRequest_def updateRequestDoc_def updateUserDoc_def
        getAvailableCollectors_def availableQuery_def toCollector_def image_iff
        split: option.splits if_splits)
  from writes hidden show ?thesis by (elim conjE, intro conjI) assumption+
qed

theorem assignCollector_unconditional_witness:
  "requests assignedStore ''r2'' \<noteq> None \<and> ''c2'' \<in> fst ` set (users assignedStore) \<and>
   cn_activeJob (collectors (assignCollectorToJob 7 ''j2'' ''c2'' busyDb) ''c2'') = Some ''j2'' \<and>
   fst (assignCollectorToRequest 7 ''r2'' ''c2'' (Num 0) assignedStore) = None \<and>
   map_option (\<lambda>d. (r_collectorId d, r_status d))
     (requests (snd (assignCollectorToRequest 7 ''r2'' ''c2'' (Num 0) assignedStore)) ''r2'') =
     Some (Some ''c2'', assigned) \<and>
   ''c2'' \<in> c_id ` set (getAvailableCollectors 8 household assignedStore) \<and>
   ''c2'' \<notin> c_id ` set (getAvailableCollectors 8 household
              (snd (assignCollectorToRequest 7 ''r2'' ''c2'' (Num 0) assignedStore)))"
proof -
  have h: "requests assignedStore ''r2'' \<noteq> None \<and> ''c2'' \<in> fst ` set (users assignedStore)"
    by (simp add: assignedStore_def emptyStore_def)
  have before: "''c2'' \<in> c_id ` set (getAvailableCollectors 8 household assignedStore)"
    by (simp add: getAvailableCollectors_def availableQuery_def toCollector_def
        assignedStore_def emptyStore_def collectorDoc_def)
  from h before
    assignCollector_unconditional [of 7 "''j2''" "''c2''" busyDb assignedStore "''r2''" "Num 0" 8 household]
  show ?thesis by simp
qed

text \<open>
  Claim C1 as stated fails. Collector \<open>c1\<close> is busy with job \<open>j1\<close>; assigning job \<open>j2\<close> to
  \<open>c1\<close> is not refused: the store changes, \<open>activeJob\<close> becomes \<open>j2\<close>, and both jobs
  name \<open>c1\<close> as their collector. Likewise in Firestore: the unavailable collector \<open>c1\<close>
  of request \<open>r1\<close> is assigned request \<open>r2\<close> as well.
\<close>

theorem assignCollector_busy_counterexample:
  "cn_activeJob (collectors busyDb ''c1'') = Some ''j1'' \<and>
   assignCollectorToJob 7 ''j2'' ''c1'' busyDb \<noteq> busyDb \<and>
   cn_activeJob (collectors (assignCollectorToJob 7 ''j2'' ''c1'' busyDb) ''c1'') = Some ''j2'' \<and>
   map (\<lambda>k. (j_collectorId (jobs (assignCollectorToJob 7 ''j2'' ''c1'' busyDb) k),
             j_status (jobs (assignCollectorToJob 7 ''j2'' ''c1'' busyDb) k))) [''j1'', ''j2''] =
     [(Some ''c1'', Some job_accepted), (Some ''c1'', Some job_assigned)] \<and>
   map (\<lambda>d. (fst d, u_isAvailable (snd d), u_currentRequestId (snd d))) (users assignedStore) =
     [(''c1'', False, Some ''r1''), (''c2'', True, None)] \<and>
   fst (assignCollectorToRequest 7 ''r2'' ''c1'' (Num 0) assignedStore) = None \<and>
   snd (assignCollectorToRequest 7 ''r2'' ''c1'' (Num 0) assignedStore) \<noteq> assignedStore \<and>
   map (\<lambda>k. map_option (\<lambda>d. (r_collectorId d, r_status d))
              (requests (snd (assignCollectorToRequest 7 ''r2'' ''c1'' (Num 0) assignedStore)) k))
     [''r1'', ''r2''] =
     [Some (Some ''c1'', assigned), Some (Some ''c1'', assigned)]"
proof -
  have "cn_activeJob (collectors (assignCollectorToJob 7 ''j2'' ''c1'' busyDb) ''c1'') \<noteq>
        cn_activeJob (collectors busyDb ''c1'')"
    by (simp add: rt_simps)
  then have rt: "assignCollectorToJob 7 ''j2'' ''c1'' busyDb \<noteq> busyDb" by metis
  have "requests (snd (assignCollectorToRequest 7 ''r2'' ''c1'' (Num 0) assignedStore)) ''r2'' \<noteq>
        requests assignedStore ''r2''"
    by (simp add: assignCollectorToRequest_def updateRequestDoc_def updateUserDoc_def
        assignedStore_def emptyStore_def collectorDoc_def requestDoc_def)
  then have fs: "snd (assignCollectorToRequest 7 ''r2'' ''c1'' (Num 0) assignedStore) \<noteq> assignedStore"
    by metis
  show ?thesis
    using rt fs
    by (simp add: rt_simps assignCollectorToRequest_def updateRequestDoc_def updateUserDoc_def
        assignedStore_def emptyStore_def collectorDoc_def requestDoc_def)
qed

section \<open>Job status updates\<close>

text \<open>
  Claim C5, as amended. \<open>updateJobStatus\<close>, called without \<open>additionalData\<close> as at
  every call site, checks no transition table and never fails:
  whatever the stored status of the job, the requested status replaces it, the
  completion time is set when the requested status is \<open>completed\<close>, and nothing else in
  the database changes.
\<close>

theorem updateJobStatus_unconditional:
  "jobs (updateJobStatus now jobId status None rt) k =
     (if k = jobId
      then (jobs rt jobId)
             \<lparr>j_status := Some status,
              j_completedAt := (if status = job_completed then Some now
                                else j_completedAt (jobs rt jobId))\<rparr>
      else jobs rt k) \<and>
   collectors (updateJobStatus now jobId status None rt) = collectors rt"
  by (simp add: updateJobStatus_def mergeJob_def emptyJob_def orElse_def)

theorem updateJobStatus_unconditional_witness:
  "j_status (jobs (updateJobStatus 9 ''j3'' job_pending None busyDb) ''j3'') = Some job_pending \<and>
   j_completedAt (jobs (updateJobStatus 9 ''j3'' job_pending None busyDb) ''j3'') = Some 3"
  using updateJobStatus_unconditional [of 9 "''j3''" job_pending busyDb "''j3''"]
  by (simp add: busyDb_def jobNode_def)

text \<open>
  Claim C5 as stated fails: the completed job \<open>j3\<close> is set back to \<open>pending\<close>, and the
  pending job \<open>j2\<close> jumps to \<open>in_progress\<close>; both calls change the stored job.
\<close>

theorem updateJobStatus_illegal_counterexample:
  "j_status (jobs busyDb ''j3'') = Some job_completed \<and>
   j_status (jobs (updateJobStatus 9 ''j3'' job_pending None busyDb) ''j3'') = Some job_pending \<and>
   updateJobStatus 9 ''j3'' job_pending None busyDb \<noteq> busyDb \<and>
   j_status (jobs busyDb ''j2'') = Some job_pending \<and>
   j_status (jobs (updateJobStatus 9 ''j2'' job_in_progress None busyDb) ''j2'') =
     Some job_in_progress"
proof -
  have "jobs (updateJobStatus 9 ''j3'' job_pending None busyDb) ''j3'' \<noteq> jobs busyDb ''j3''"
    by (simp add: updateJobStatus_def mergeJob_def emptyJob_def orElse_def busyDb_def jobNode_def)
  then have "updateJobStatus 9 ''j3'' job_pending None busyDb \<noteq> busyDb" by metis
  then show ?thesis
    by (simp add: updateJobStatus_def mergeJob_def emptyJob_def orElse_def busyDb_def jobNode_def)
qed

section \<open>Dispatch with retries\<close>

text \<open>
  The store is read and written by \<open>retryMatch\<close> alone here: no other client writes
  between two attempts.
\<close>

lemma no_eligible_none:
  assumes "\<forall>u\<in>set (users fs). \<not> eligible wt u"
  shows "findNearestCollector calculateDistance now loc wt fs = None"
proof -
  have "\<forall>c\<in>set (getAvailableCollectors now wt fs). c_currentLocation c = None"
    using assms by (auto simp: available_set eligible_iff toCollector_location)
  then have "nearestLoop calculateDistance loc (getAvailableCollectors now wt fs) None = None"
    by (simp add: nearestLoop_None)
  then show ?thesis by (simp add: findNearestCollector_def Let_def)
qed

lemma autoMatch_none:
  "findNearestCollector calculateDistance now loc wt fs = None \<Longrightarrow>
   autoMatchCollector calculateDistance now rid loc wt fs =
     (matchFailure ''No collectors available for this waste type right now'', fs)"
  by (simp add: autoMatchCollector_def)

lemma retrySchedule_step:
  "i < maxR \<Longrightarrow>
   [Attempt] @ (if i < maxR - 1 then [Wait ms] else []) @ retrySchedule (nat (maxR - (i + 1))) ms =
   retrySchedule (nat (maxR - i)) ms"
proof (cases "i < maxR - 1")
  case True
  assume "i < maxR"
  from True obtain n where n: "nat (maxR - (i + 1)) = Suc n"
    by (metis Suc_pred' diff_add_eq_diff_diff_swap diff_gt_0_iff_gt zero_less_nat_eq diff_diff_eq2 add.commute)
  then have "nat (maxR - i) = Suc (Suc n)" by linarith
  with n True show ?thesis by simp
next
  case False
  assume "i < maxR"
  with False have "maxR - i = 1" by simp
  then show ?thesis using False by simp
qed

lemma retryLoop_no_match:
  assumes "findNearestCollector calculateDistance now (p_pickupLocation request) (p_wasteType request) fs = None"
  shows "retryLoop calculateDistance now rid request maxR ms i fs tr =
           (None, fs, tr @ retrySchedule (nat (maxR - i)) ms)"
  using assms
proof (induction calculateDistance now rid request maxR ms i fs tr rule: retryLoop.induct)
  case (1 calculateDistance now requestId request maxRetries retryDelayMs i fs tr)
  show ?case
  proof (cases "i < maxRetries")
    case True
    have am: "autoMatchCollector calculateDistance now requestId (p_pickupLocation request) (p_wasteType request) fs =
        (matchFailure ''No collectors available for this waste type right now'', fs)"
      using "1.prems" by (rule autoMatch_none)
    have ih: "retryLoop calculateDistance now requestId request maxRetries retryDelayMs (i + 1) fs
          (tr @ [Attempt] @ (if i < maxRetries - 1 then [Wait retryDelayMs] else [])) =
        (None, fs, (tr @ [Attempt] @ (if i < maxRetries - 1 then [Wait retryDelayMs] else [])) @
           retrySchedule (nat (maxRetries - (i + 1))) retryDelayMs)"
      using "1.IH" [OF True refl] am "1.prems" by (simp add: matchFailure_def)
    have "retryLoop calculateDistance now requestId request maxRetries retryDelayMs i fs tr =
        retryLoop calculateDistance now requestId request maxRetries retryDelayMs (i + 1) fs
          (tr @ [Attempt] @ (if i < maxRetries - 1 then [Wait retryDelayMs] else []))"
      using True am by (subst retryLoop.simps) (simp add: matchFailure_def Let_def)
    also note ih
    finally show ?thesis using retrySchedule_step [OF True, of retryDelayMs] by simp
  next
    case False
    then show ?thesis by (subst retryLoop.simps) simp
  qed
qed

lemma retryLoop_success:
  "fst (retryLoop calculateDistance now rid request maxR ms i fs tr) = Some m \<Longrightarrow> m_success m"
proof (induction calculateDistance now rid request maxR ms i fs tr rule: retryLoop.induct)
  case (1 calculateDistance now requestId request maxRetries retryDelayMs i fs tr)
  let ?r = "autoMatchCollector calculateDistance now requestId (p_pickupLocation request) (p_wasteType request) fs"
  show ?case
  proof (cases "i < maxRetries")
    case True
    show ?thesis
    proof (cases "m_success (fst ?r)")
      case s: True
      with True "1.prems" show ?thesis
        by (subst (asm) retryLoop.simps) (simp add: Let_def)
    next
      case f: False
      with True "1.prems" have
        "fst (retryLoop calculateDistance now requestId request maxRetries retryDelayMs (i + 1) (snd ?r)
           (tr @ [Attempt] @ (if i < maxRetries - 1 then [Wait retryDelayMs] else []))) = Some m"
        by (subst (asm) retryLoop.simps) (simp add: Let_def)
      from "1.IH" [OF True refl f this] show ?thesis .
    qed
  next
    case False
    with "1.prems" show ?thesis
      by (subst (asm) retryLoop.simps) simp
  qed
qed

lemma retryLoop_trace:
  "\<exists>suffix. snd (snd (retryLoop calculateDistance now rid request maxR ms i fs tr)) = tr @ suffix"
proof (induction calculateDistance now rid request maxR ms i fs tr rule: retryLoop.induct)
  case (1 calculateDistance now requestId request maxRetries retryDelayMs i fs tr)
  show ?case
  proof (cases "i < maxRetries \<and> \<not> m_success (fst (autoMatchCollector calculateDistance now requestId (p_pickupLocation request) (p_wasteType request) fs))")
    case True
    then have "\<exists>suffix. snd (snd (retryLoop calculateDistance now requestId request maxRetries retryDelayMs (i + 1)
        (snd (autoMatchCollector calculateDistance now requestId (p_pickupLocation request) (p_wasteType request) fs))
        (tr @ [Attempt] @ (if i < maxRetries - 1 then [Wait retryDelayMs] else [])))) =
        (tr @ [Attempt] @ (if i < maxRetries - 1 then [Wait retryDelayMs] else [])) @ suffix"
      using "1.IH" by blast
    then show ?thesis using True
      by (subst retryLoop.simps) (auto simp: Let_def)
  next
    case False
    then show ?thesis by (subst retryLoop.simps) (auto simp: Let_def)
  qed
qed

lemma findNearest_payments:
  "findNearestCollector calculateDistance now loc wt (fs\<lparr>payments := ps\<rparr>) = findNearestCollector calculateDistance now loc wt fs"
  by (simp add: findNearestCollector_def getAvailableCollectors_def)

lemma assign_payments:
  "assignCollectorToRequest now r c km (fs\<lparr>payments := ps\<rparr>) =
     (fst (assignCollectorToRequest now r c km fs),
      (snd (assignCollectorToRequest now r c km fs))\<lparr>payments := ps\<rparr>)"
  by (simp add: assignCollectorToRequest_def updateRequestDoc_def updateUserDoc_def
      split: option.splits)

lemma autoMatch_payments:
  "autoMatchCollector calculateDistance now r loc wt (fs\<lparr>payments := ps\<rparr>) =
     (fst (autoMatchCollector calculateDistance now r loc wt fs),
      (snd (autoMatchCollector calculateDistance now r loc wt fs))\<lparr>payments := ps\<rparr>)"
  by (simp add: autoMatchCollector_def assign_payments findNearest_payments
      split: option.splits prod.splits)

lemma retryLoop_payments:
  "retryLoop calculateDistance now r req maxR ms i (fs\<lparr>payments := ps\<rparr>) tr =
     (case retryLoop calculateDistance now r req maxR ms i fs tr of
        (res, fs1, tr1) \<Rightarrow> (res, fs1\<lparr>payments := ps\<rparr>, tr1))"
proof (induction calculateDistance now r req maxR ms i fs tr rule: retryLoop.induct)
  case (1 calculateDistance now requestId request maxRetries retryDelayMs i fs tr)
  let ?r = "autoMatchCollector calculateDistance now requestId (p_pickupLocation request) (p_wasteType request) fs"
  show ?case
  proof (cases "i < maxRetries \<and> \<not> m_success (fst ?r)")
    case True
    from "1.IH" [of ?r] True have ih:
      "retryLoop calculateDistance now requestId request maxRetries retryDelayMs (i + 1) ((snd ?r)\<lparr>payments := ps\<rparr>)
         (tr @ [Attempt] @ (if i < maxRetries - 1 then [Wait retryDelayMs] else [])) =
       (case retryLoop calculateDistance now requestId request maxRetries retryDelayMs (i + 1) (snd ?r)
          (tr @ [Attempt] @ (if i < maxRetries - 1 then [Wait retryDelayMs] else [])) of
          (res, fs1, tr1) \<Rightarrow> (res, fs1\<lparr>payments := ps\<rparr>, tr1))"
      by simp
    show ?thesis
      apply (subst retryLoop.simps)
      apply (subst (2) retryLoop.simps)
      using True ih by (simp add: Let_def autoMatch_payments)
  next
    case False
    then show ?thesis
      apply (subst retryLoop.simps)
      apply (subst (2) retryLoop.simps)
      by (auto simp: Let_def autoMatch_payments)
  qed
qed

lemma updateRequestStatus_payments:
  "updateRequestStatus now r st f (fs\<lparr>payments := ps\<rparr>) =
     (fst (updateRequestStatus now r st f fs),
      (snd (updateRequestStatus now r st f fs))\<lparr>payments := ps\<rparr>)"
  by (simp add: updateRequestStatus_def updateRequestDoc_def split: option.splits)

lemma getPickupRequest_payments:
  "getPickupRequest now r (fs\<lparr>payments := ps\<rparr>) = getPickupRequest now r fs"
  by (simp add: getPickupRequest_def)

lemma retryMatch_payments:
  "retryMatch calculateDistance now requestId maxRetries retryDelayMs (fs\<lparr>payments := ps\<rparr>) =
     (case retryMatch calculateDistance now requestId maxRetries retryDelayMs fs of
        (res, fs1, tr) \<Rightarrow> (res, fs1\<lparr>payments := ps\<rparr>, tr))"
  by (simp add: retryMatch_def getPickupRequest_payments retryLoop_payments
      updateRequestStatus_payments split: option.splits prod.splits)

lemma retryMatch_rejects:
  "\<not> (case requests fs requestId of None \<Rightarrow> False | Some d \<Rightarrow> r_status d = pending) \<Longrightarrow>
   retryMatch calculateDistance now requestId maxRetries retryDelayMs fs =
     (Inr (matchFailure ''Request not found or already processed''), fs, [])"
  by (auto simp: retryMatch_def getPickupRequest_def split: option.splits)

lemma retryMatch_pending_result:
  assumes "requests fs requestId = Some d" "r_status d = pending"
  shows "fst (retryMatch calculateDistance now requestId maxRetries retryDelayMs fs) \<noteq>
           Inr (matchFailure ''Request not found or already processed'')"
proof -
  obtain req where req: "getPickupRequest now requestId fs = Some req" "p_status req = pending"
    using assms by (auto simp: getPickupRequest_def)
  obtain res fs1 tr where loop: "retryLoop calculateDistance now requestId req maxRetries retryDelayMs 0 fs [] = (res, fs1, tr)"
    by (cases "retryLoop calculateDistance now requestId req maxRetries retryDelayMs 0 fs []") auto
  show ?thesis
  proof (cases res)
    case None
    then show ?thesis using req loop
      by (auto simp: retryMatch_def matchFailure_def split: prod.splits option.splits)
  next
    case (Some m)
    then have "m_success m" using retryLoop_success [of calculateDistance now requestId req maxRetries retryDelayMs 0 fs "[]" m] loop
      by simp
    then show ?thesis using req loop Some
      by (auto simp: retryMatch_def matchFailure_def)
  qed
qed

lemma retryMatch_pending_attempt:
  assumes "requests fs requestId = Some d" "r_status d = pending" "0 < maxRetries"
  shows "\<exists>tr. snd (snd (retryMatch calculateDistance now requestId maxRetries retryDelayMs fs)) = Attempt # tr"
proof -
  obtain req where req: "getPickupRequest now requestId fs = Some req" "p_status req = pending"
    using assms by (auto simp: getPickupRequest_def)
  let ?r = "autoMatchCollector calculateDistance now requestId (p_pickupLocation req) (p_wasteType req) fs"
  have "\<exists>tr. snd (snd (retryLoop calculateDistance now requestId req maxRetries retryDelayMs 0 fs [])) = Attempt # tr"
  proof (cases "m_success (fst ?r)")
    case True
    then show ?thesis using assms(3) by (subst retryLoop.simps) (simp add: Let_def)
  next
    case False
    from retryLoop_trace [of calculateDistance now requestId req maxRetries retryDelayMs "0 + 1" "snd ?r"
        "[] @ [Attempt] @ (if 0 < maxRetries - 1 then [Wait retryDelayMs] else [])"]
    show ?thesis using False assms(3) by (subst retryLoop.simps) (auto simp: Let_def)
  qed
  then obtain tr where "snd (snd (retryLoop calculateDistance now requestId req maxRetries retryDelayMs 0 fs [])) = Attempt # tr"
    by blast
  then show ?thesis using req
    by (auto simp: retryMatch_def split: prod.splits option.splits)
qed

lemmas store_simps = emptyStore_def collectorDoc_def requestDoc_def pickupPoint_def
  pickupLocation_def

lemmas match_simps = retryMatch_def getPickupRequest_def autoMatchCollector_def
  findNearestCollector_def getAvailableCollectors_def availableQuery_def toCollector_def
  assignCollectorToRequest_def updateRequestDoc_def updateUserDoc_def updateRequestStatus_def
  matchFailure_def Let_def

text \<open>
  Claim C3, as amended. \<open>retryMatch\<close> returns the failure "Request not found or already
  processed", with the store unchanged and no matching attempt made, exactly when the
  request does not exist or its status is not \<open>pending\<close>. A pending request goes on to
  matching as soon as the attempt count is positive. Payment is not consulted: replacing
  the \<open>payments\<close> collection by any other leaves the result, the trace and the rest of
  the store the same.
\<close>

theorem retryMatch_gate:
  "(retryMatch calculateDistance now requestId maxRetries retryDelayMs fs =
      (Inr (matchFailure ''Request not found or already processed''), fs, [])) =
     (\<not> (case requests fs requestId of None \<Rightarrow> False | Some d \<Rightarrow> r_status d = pending)) \<and>
   ((case requests fs requestId of None \<Rightarrow> False | Some d \<Rightarrow> r_status d = pending) \<and>
     0 < maxRetries \<longrightarrow>
     (\<exists>tr. snd (snd (retryMatch calculateDistance now requestId maxRetries retryDelayMs fs)) = Attempt # tr)) \<and>
   retryMatch calculateDistance now requestId maxRetries retryDelayMs (fs\<lparr>payments := ps\<rparr>) =
     (case retryMatch calculateDistance now requestId maxRetries retryDelayMs fs of
        (res, fs1, tr) \<Rightarrow> (res, fs1\<lparr>payments := ps\<rparr>, tr))"
proof (intro conjI)
  show "(retryMatch calculateDistance now requestId maxRetries retryDelayMs fs =
      (Inr (matchFailure ''Request not found or already processed''), fs, [])) =
     (\<not> (case requests fs requestId of None \<Rightarrow> False | Some d \<Rightarrow> r_status d = pending))"
  proof (cases "case requests fs requestId of None \<Rightarrow> False | Some d \<Rightarrow> r_status d = pending")
    case True
    then obtain d where "requests fs requestId = Some d" "r_status d = pending"
      by (auto split: option.splits)
    from retryMatch_pending_result [OF this, of calculateDistance now maxRetries retryDelayMs] True
    show ?thesis by auto
  next
    case False
    with retryMatch_rejects [OF False, of calculateDistance now maxRetries retryDelayMs]
    show ?thesis by simp
  qed
next
  show "(case requests fs requestId of None \<Rightarrow> False | Some d \<Rightarrow> r_status d = pending) \<and>
     0 < maxRetries \<longrightarrow>
     (\<exists>tr. snd (snd (retryMatch calculateDistance now requestId maxRetries retryDelayMs fs)) = Attempt # tr)"
    using retryMatch_pending_attempt [of fs requestId _ maxRetries calculateDistance now retryDelayMs]
    by (auto split: option.splits)
next
  show "retryMatch calculateDistance now requestId maxRetries retryDelayMs (fs\<lparr>payments := ps\<rparr>) =
     (case retryMatch calculateDistance now requestId maxRetries retryDelayMs fs of
        (res, fs1, tr) \<Rightarrow> (res, fs1\<lparr>payments := ps\<rparr>, tr))"
    by (rule retryMatch_payments)
qed

theorem retryMatch_gate_witness:
  "(case requests unpaidStore ''r1'' of None \<Rightarrow> False | Some d \<Rightarrow> r_status d = pending) \<and>
   (0::int) < 3 \<and>
   retryMatch exampleDistance 1 ''r1'' 3 30000 unpaidStore \<noteq>
     (Inr (matchFailure ''Request not found or already processed''), unpaidStore, []) \<and>
   (\<exists>tr. snd (snd (retryMatch exampleDistance 1 ''r1'' 3 30000 unpaidStore)) = Attempt # tr)"
proof -
  have h: "case requests unpaidStore ''r1'' of None \<Rightarrow> False | Some d \<Rightarrow> r_status d = pending"
    by (simp add: unpaidStore_def store_simps)
  from h retryMatch_gate [of exampleDistance 1 "''r1''" 3 30000 unpaidStore]
  show ?thesis by simp
qed

text \<open>
  Claim C3 as stated fails. The only payment of the pending request \<open>r1\<close> is still
  pending, and \<open>retryMatch\<close> assigns collector \<open>c1\<close> to it. In the Realtime Database, the
  pending job \<open>j2\<close> with payment status \<open>pending\<close> is accepted by collector \<open>c3\<close>.
\<close>

theorem retryMatch_unpaid_counterexample:
  "map (\<lambda>p. (pm_requestId (snd p), pm_status (snd p))) (payments unpaidStore) =
     [(''r1'', pay_pending)] \<and>
   map_option r_status (requests unpaidStore ''r1'') = Some pending \<and>
   (case fst (retryMatch exampleDistance 1 ''r1'' 3 30000 unpaidStore) of
      Inl e \<Rightarrow> False
    | Inr m \<Rightarrow> m_success m \<and> map_option c_id (m_collector m) = Some ''c1'') \<and>
   map_option (\<lambda>d. (r_status d, r_collectorId d))
     (requests (fst (snd (retryMatch exampleDistance 1 ''r1'' 3 30000 unpaidStore))) ''r1'') =
     Some (assigned, Some ''c1'') \<and>
   j_paymentStatus (jobs (st_rt incomingWorld) ''j2'') = Some payment_pending \<and>
   j_paymentStatus (jobs (st_rt (handleAcceptJob 2 ''c3'' incomingWorld)) ''j2'') =
     Some payment_pending \<and>
   j_collectorId (jobs (st_rt (handleAcceptJob 2 ''c3'' incomingWorld)) ''j2'') = Some ''c3'' \<and>
   j_status (jobs (st_rt (handleAcceptJob 2 ''c3'' incomingWorld)) ''j2'') = Some job_accepted"
proof -
  have a: "map (\<lambda>p. (pm_requestId (snd p), pm_status (snd p))) (payments unpaidStore) =
     [(''r1'', pay_pending)] \<and>
   map_option r_status (requests unpaidStore ''r1'') = Some pending"
    by (simp add: unpaidStore_def store_simps)
  have b: "(case fst (retryMatch exampleDistance 1 ''r1'' 3 30000 unpaidStore) of
      Inl e \<Rightarrow> False
    | Inr m \<Rightarrow> m_success m \<and> map_option c_id (m_collector m) = Some ''c1'') \<and>
   map_option (\<lambda>d. (r_status d, r_collectorId d))
     (requests (fst (snd (retryMatch exampleDistance 1 ''r1'' 3 30000 unpaidStore))) ''r1'') =
     Some (assigned, Some ''c1'')"
    by (simp add: match_simps retryLoop.simps [of _ _ _ _ _ _ 0] unpaidStore_def store_simps
        exampleDistance_def)
  have c: "j_paymentStatus (jobs (st_rt incomingWorld) ''j2'') = Some payment_pending \<and>
   j_paymentStatus (jobs (st_rt (handleAcceptJob 2 ''c3'' incomingWorld)) ''j2'') =
     Some payment_pending \<and>
   j_collectorId (jobs (st_rt (handleAcceptJob 2 ''c3'' incomingWorld)) ''j2'') = Some ''c3'' \<and>
   j_status (jobs (st_rt (handleAcceptJob 2 ''c3'' incomingWorld)) ''j2'') = Some job_accepted"
    by (simp add: handleAcceptJob_def incomingWorld_def idleDashboard_def jobObject_def
        busyDb_def jobNode_def assignCollectorToJob_def updateJobStatus_def mergeJob_def
        emptyJob_def orElse_def Let_def)
  from a b c show ?thesis by simp
qed

text \<open>
  Claim C4. For a pending request and a store without an eligible collector for its
  waste type, \<open>retryMatch\<close> makes exactly \<open>maxRetries\<close> attempts with one wait of
  \<open>retryDelayMs\<close> between two consecutive attempts, then sets the request to
  \<open>cancelled\<close> with the reason "No collectors available after multiple attempts", and
  returns the failure "No collectors available. Please try again later.". With the
  default arguments these are 3 attempts and waits of 30000 ms.
\<close>

theorem retryMatch_exhausts:
  assumes "requests fs requestId = Some d" and "r_status d = pending"
    and "\<forall>u\<in>set (users fs). \<not> eligible (r_wasteType d) u"
  shows "retryMatch calculateDistance now requestId maxRetries retryDelayMs fs =
           (Inr (matchFailure ''No collectors available. Please try again later.''),
            fs\<lparr>requests := (requests fs)(requestId \<mapsto>
                 d\<lparr>r_status := cancelled, r_updatedAt := Some now,
                   r_cancelReason := Some ''No collectors available after multiple attempts''\<rparr>)\<rparr>,
            retrySchedule (nat maxRetries) retryDelayMs)"
proof -
  obtain req where req: "getPickupRequest now requestId fs = Some req" "p_status req = pending"
    "p_wasteType req = r_wasteType d"
    using assms(1,2) by (auto simp: getPickupRequest_def)
  have none: "findNearestCollector calculateDistance now (p_pickupLocation req) (p_wasteType req) fs = None"
    using assms(3) req(3) by (simp add: no_eligible_none)
  have loop: "retryLoop calculateDistance now requestId req maxRetries retryDelayMs 0 fs [] =
      (None, fs, retrySchedule (nat maxRetries) retryDelayMs)"
    using retryLoop_no_match [OF none, of requestId maxRetries retryDelayMs 0 "[]"] by simp
  show ?thesis
    using req loop assms(1)
    by (simp add: retryMatch_def updateRequestStatus_def updateRequestDoc_def Let_def)
qed

theorem retryMatch_exhausts_witness:
  "requests noCollectorStore ''r1'' = Some (requestDoc medical pending None) \<and>
   snd (snd (retryMatchDefault exampleDistance 4 ''r1'' noCollectorStore)) =
     [Attempt, Wait 30000, Attempt, Wait 30000, Attempt] \<and>
   fst (retryMatchDefault exampleDistance 4 ''r1'' noCollectorStore) =
     Inr (matchFailure ''No collectors available. Please try again later.'') \<and>
   map_option (\<lambda>d. (r_status d, r_cancelReason d))
     (requests (fst (snd (retryMatchDefault exampleDistance 4 ''r1'' noCollectorStore))) ''r1'') =
     Some (cancelled, Some ''No collectors available after multiple attempts'')"
proof -
  have h1: "requests noCollectorStore ''r1'' = Some (requestDoc medical pending None)"
    by (simp add: noCollectorStore_def emptyStore_def)
  have h2: "r_status (requestDoc medical pending None) = pending"
    by (simp add: requestDoc_def)
  have h3: "\<forall>u\<in>set (users noCollectorStore). \<not> eligible (r_wasteType (requestDoc medical pending None)) u"
    by (simp add: noCollectorStore_def store_simps eligible_def)
  have three: "retrySchedule (nat 3) 30000 = [Attempt, Wait 30000, Attempt, Wait 30000, Attempt]"
    by (simp add: eval_nat_numeral)
  from retryMatch_exhausts [OF h1 h2 h3, of exampleDistance 4 3 30000] h1 three
  show ?thesis by (simp add: retryMatchDefault_def requestDoc_def)
qed

text \<open>
  Claim C6, as amended. On a request that is no longer \<open>pending\<close>, \<open>retryMatch\<close> writes
  nothing, makes no matching attempt and so no second assignment, and returns the
  failure result with the error "Request not found or already processed".
\<close>

theorem retryMatch_not_pending_noop:
  assumes "requests fs requestId = Some d" and "r_status d \<noteq> pending"
  shows "retryMatch calculateDistance now requestId maxRetries retryDelayMs fs =
           (Inr (matchFailure ''Request not found or already processed''), fs, [])"
  using assms by (simp add: retryMatch_def getPickupRequest_def)

theorem retryMatch_not_pending_noop_witness:
  "map_option r_status (requests assignedStore ''r1'') = Some assigned \<and>
   snd (retryMatch exampleDistance 1 ''r1'' 3 30000 assignedStore) = (assignedStore, [])"
proof -
  have h1: "requests assignedStore ''r1'' = Some (requestDoc household assigned (Some ''c1''))"
    by (simp add: assignedStore_def emptyStore_def)
  have h2: "r_status (requestDoc household assigned (Some ''c1'')) \<noteq> pending"
    by (simp add: requestDoc_def)
  from retryMatch_not_pending_noop [OF h1 h2, of exampleDistance 1 3 30000] h1
  show ?thesis by (simp add: requestDoc_def)
qed

text \<open>
  Claim C6 as stated fails in its last part: for the request \<open>r1\<close>, assigned to \<open>c1\<close> by
  an earlier dispatch, the value returned is an error result that carries neither the
  collector nor the status of the request.
\<close>

theorem retryMatch_not_pending_counterexample:
  "map_option (\<lambda>d. (r_status d, r_collectorId d)) (requests assignedStore ''r1'') =
     Some (assigned, Some ''c1'') \<and>
   fst (retryMatch exampleDistance 1 ''r1'' 3 30000 assignedStore) =
     Inr \<lparr> m_success = False, m_collector = None, m_distance = None,
           m_estimatedArrival = None,
           m_error = Some ''Request not found or already processed'' \<rparr>"
  by (simp add: retryMatch_def getPickupRequest_def matchFailure_def assignedStore_def store_simps)

section \<open>Job completion\<close>

lemma handleCompleteJob_store:
  "st_fs (handleCompleteJob now collectorId st) = st_fs st"
  by (simp add: handleCompleteJob_def Let_def split: option.splits)

text \<open>
  Claim C9 against the code. Collector \<open>c1\<close> completes job \<open>j1\<close> of 250 GMD with a stored
  wallet of 100 GMD. The job becomes \<open>completed\<close> and the collector's \<open>activeJob\<close>
  becomes null, and the page shows 350 GMD; but the Firestore store is left as it was:
  the stored balance is still 100 GMD and no wallet transaction is recorded, where
  \<open>creditWallet\<close> with the job's amount would have stored 350 GMD.
\<close>

theorem handleCompleteJob_no_wallet_credit:
  "map_option rj_amount (d_activeJob (st_ui activeWorld)) = Some 250 \<and>
   map_option w_balance (wallets (st_fs activeWorld) ''c1'') = Some (Some 100) \<and>
   j_status (jobs (st_rt (handleCompleteJob 9 ''c1'' activeWorld)) ''j1'') = Some job_completed \<and>
   cn_activeJob (collectors (st_rt (handleCompleteJob 9 ''c1'' activeWorld)) ''c1'') = None \<and>
   d_walletBalance (st_ui (handleCompleteJob 9 ''c1'' activeWorld)) = 350 \<and>
   st_fs (handleCompleteJob 9 ''c1'' activeWorld) = st_fs activeWorld \<and>
   map_option w_balance (wallets (st_fs (handleCompleteJob 9 ''c1'' activeWorld)) ''c1'') =
     Some (Some 100) \<and>
   walletTransactions (st_fs (handleCompleteJob 9 ''c1'' activeWorld)) = [] \<and>
   map_option w_balance
     (wallets (snd (creditWallet 9 ''t1'' ''c1'' 250 ''Pickup j1'' (Some ''pay1'')
                      (st_fs activeWorld))) ''c1'') =
     Some (Some 350)"
  by (simp add: handleCompleteJob_def activeWorld_def idleDashboard_def jobObject_def rt_simps
      walletStore_def emptyStore_def creditWallet_def balanceOrZero_def)

section \<open>Withdrawals\<close>

text \<open>
  Claim C10. \<open>withdrawFromWallet\<close> succeeds exactly when the collector has a wallet, the
  amount is at most the stored balance and at least 50. When it fails the store is
  unchanged and the error is "Wallet not found", "Insufficient balance" or "Minimum
  withdrawal is 50 GMD". When it succeeds the stored balance is the old balance minus
  the amount, which is not negative, and one transaction of type \<open>withdraw\<close> is appended
  whose \<open>balanceAfter\<close> is the new balance.
\<close>

theorem withdrawFromWallet_spec:
  "(wr_success (fst (withdrawFromWallet now transId collectorId amount paymentMethod phoneNumber fs)) =
      (\<exists>w. wallets fs collectorId = Some w \<and> amount \<le> balanceOrZero w \<and> 50 \<le> amount)) \<and>
   (\<not> wr_success (fst (withdrawFromWallet now transId collectorId amount paymentMethod phoneNumber fs)) \<longrightarrow>
      snd (withdrawFromWallet now transId collectorId amount paymentMethod phoneNumber fs) = fs \<and>
      wr_error (fst (withdrawFromWallet now transId collectorId amount paymentMethod phoneNumber fs)) =
        (case wallets fs collectorId of
           None \<Rightarrow> Some ''Wallet not found''
         | Some w \<Rightarrow> if amount > balanceOrZero w then Some ''Insufficient balance''
                     else Some ''Minimum withdrawal is 50 GMD'')) \<and>
   (wr_success (fst (withdrawFromWallet now transId collectorId amount paymentMethod phoneNumber fs)) \<longrightarrow>
      (\<exists>w tx. wallets fs collectorId = Some w \<and>
         wallets (snd (withdrawFromWallet now transId collectorId amount paymentMethod phoneNumber fs)) =
           (wallets fs)(collectorId \<mapsto>
              w\<lparr>w_balance := Some (balanceOrZero w - amount), w_updatedAt := Some now\<rparr>) \<and>
         walletTransactions (snd (withdrawFromWallet now transId collectorId amount paymentMethod phoneNumber fs)) =
           walletTransactions fs @ [(transId, tx)] \<and>
         t_walletId tx = collectorId \<and> t_type tx = withdraw \<and> t_amount tx = - amount \<and>
         t_balanceAfter tx = balanceOrZero w - amount \<and>
         0 \<le> balanceOrZero w - amount))"
  by (cases "wallets fs collectorId") (auto simp: withdrawFromWallet_def Let_def)

theorem withdrawFromWallet_spec_witness:
  "wr_success (fst (withdrawFromWallet 5 ''t1'' ''c1'' 60 ''wave'' ''7000000'' walletStore)) \<and>
   map_option w_balance
     (wallets (snd (withdrawFromWallet 5 ''t1'' ''c1'' 60 ''wave'' ''7000000'' walletStore)) ''c1'') =
     Some (Some 40) \<and>
   \<not> wr_success (fst (withdrawFromWallet 5 ''t1'' ''c1'' 160 ''wave'' ''7000000'' walletStore)) \<and>
   snd (withdrawFromWallet 5 ''t1'' ''c1'' 160 ''wave'' ''7000000'' walletStore) = walletStore \<and>
   wr_error (fst (withdrawFromWallet 5 ''t1'' ''c1'' 160 ''wave'' ''7000000'' walletStore)) =
     Some ''Insufficient balance''"
  using withdrawFromWallet_spec [of 5 "''t1''" "''c1''" 60 "''wave''" "''7000000''" walletStore]
    withdrawFromWallet_spec [of 5 "''t1''" "''c1''" 160 "''wave''" "''7000000''" walletStore]
  by (auto simp: walletStore_def emptyStore_def balanceOrZero_def)

end
